theory Spec2Isabelle
  imports Complex_Main
begin

section \<open>Auto-Builder server: a shallow embedding of \<^verbatim>\<open>src/server.js\<close>\<close>

text \<open>
  The server is one Express handler, \<^verbatim>\<open>POST /api-endpoint\<close>, that validates a JSON body,
  acknowledges it and then runs a pipeline of side-effecting steps: write the attachments,
  generate files, create and push a repository, post a callback. Each JavaScript function
  of the source is one definition below, under its own name. The second copy of the
  server, \<^verbatim>\<open>src/unnamed/part_000\<close>, has the same functions; where it differs the text
  is that of \<^verbatim>\<open>src/server.js\<close>. The differences: the copy imports \<^verbatim>\<open>path\<close> and uses
  \<^verbatim>\<open>path.join\<close> and \<^verbatim>\<open>path.dirname\<close> where \<^verbatim>\<open>src/server.js\<close> concatenates and calls
  \<^verbatim>\<open>require('path')\<close>, its mock page has no line break after the doctype, and its
  materializer iterates \<^verbatim>\<open>attachments\<close> without the \<^verbatim>\<open>|| []\<close>, which the handler has
  applied already.
\<close>

subsection \<open>JavaScript values\<close>

text \<open>
  A request body, a parsed backend reply and a callback payload are JSON values. A string
  is a list of code units; a \<^typ>\<open>char\<close> stands for one UTF-16 code unit, of which HOL's
  type covers 0 to 255. A number carries the value of the double.
\<close>

datatype jsval =
    JUndefined
  | JNull
  | JBool bool
  | JNum real
  | JStr string
  | JArr "jsval list"
  | JObj "(string \<times> jsval) list"

text \<open>\<^verbatim>\<open>!v\<close> is false exactly on the truthy values.\<close>

fun truthy :: "jsval \<Rightarrow> bool" where
  "truthy JUndefined = False"
| "truthy JNull = False"
| "truthy (JBool b) = b"
| "truthy (JNum n) = (n \<noteq> 0)"
| "truthy (JStr s) = (s \<noteq> [])"
| "truthy (JArr xs) = True"
| "truthy (JObj kvs) = True"

text \<open>\<^verbatim>\<open>a || b\<close>\<close>

definition or_else :: "jsval \<Rightarrow> jsval \<Rightarrow> jsval" where
  "or_else a b = (if truthy a then a else b)"

text \<open>
  Reading one of the property names the server uses (\<^verbatim>\<open>email\<close>, \<^verbatim>\<open>files\<close>, \<^verbatim>\<open>name\<close>, ...)
  from a value that is neither \<^verbatim>\<open>null\<close> nor \<^verbatim>\<open>undefined\<close>: an object answers with the
  property or \<^verbatim>\<open>undefined\<close>, every other value has no such property.
\<close>

fun get_prop :: "jsval \<Rightarrow> string \<Rightarrow> jsval" where
  "get_prop (JObj kvs) k = (case map_of kvs k of Some v \<Rightarrow> v | None \<Rightarrow> JUndefined)"
| "get_prop v k = JUndefined"

subsection \<open>Errors, events and the outside world\<close>

datatype error =
    TypeError
  | ReferenceError
  | Rejected string
  | NotifyFailed

text \<open>
  \<open>TypeError\<close> is the runtime's own (a property of \<^verbatim>\<open>null\<close>, a value that is not
  iterable, a missing method, a value with no string form) and so is \<open>ReferenceError\<close> (an
  identifier that is not defined); \<open>Rejected lib\<close> is an exception or a rejected promise of
  the library \<open>lib\<close>; \<open>NotifyFailed\<close> is
  \<^verbatim>\<open>new Error('Failed to notify evaluation_url after retries')\<close>.
\<close>

datatype git_cmd =
    GitInit
  | GitAddConfig string string
  | GitAdd string
  | GitCommit string
  | GitAddRemote string jsval
  | GitPush "string list"

datatype http_outcome =
    HttpResponse nat jsval
  | HttpError

record repo =
  repo_name :: jsval
  owner_login :: jsval
  clone_url :: jsval
  html_url :: jsval

text \<open>Every effect of the handler on the outside is an event of its trace, in order.\<close>

datatype event =
    Respond nat jsval
  | TmpDirSync nat
  | EnsureDir string
  | DataUriParse jsval
  | WriteFile string jsval
  | OpenAICreate string
  | CreateRepo string
  | Git git_cmd
  | GetCommit jsval jsval
  | HttpPost jsval jsval
  | Sleep nat
  | ConsoleLog string jsval
  | ConsoleError string error

text \<open>
  The process environment and the libraries the server calls are parameters: what each
  call answers, with \<open>None\<close> or \<open>False\<close> for a call that throws or rejects.
  \<open>axios_post i url body\<close> is the outcome of the request the notifier sends in iteration
  \<open>i\<close> of its loop; \<open>tmp_dirSync k\<close> is the \<open>k\<close>-th temporary directory of the job;
  \<open>number_toString\<close> is how the runtime prints a number.
\<close>

record env =
  OPENAI_API_KEY :: "string option"
  DEFAULT_SECRET_var :: "string option"
  GIT_USER_NAME_var :: "string option"
  GIT_USER_EMAIL_var :: "string option"
  date_now :: int
  number_toString :: "real \<Rightarrow> string"
  JSON_stringify :: "jsval \<Rightarrow> string"
  JSON_parse :: "string \<Rightarrow> jsval option"
  tmp_dirSync :: "nat \<Rightarrow> string option"
  fs_ensureDir :: "string \<Rightarrow> bool"
  fs_writeFile :: "string \<Rightarrow> jsval \<Rightarrow> bool"
  parser_parse :: "jsval \<Rightarrow> jsval option"
  openai_create :: "string \<Rightarrow> string option"
  octokit_create :: "string \<Rightarrow> repo option"
  git_run :: "git_cmd \<Rightarrow> bool"
  octokit_getCommit :: "jsval \<Rightarrow> jsval \<Rightarrow> jsval option"
  axios_post :: "nat \<Rightarrow> jsval \<Rightarrow> jsval \<Rightarrow> http_outcome"

text \<open>
  An asynchronous function returns its value or the error it throws, together with the
  events it caused. \<open>bind_io\<close> is \<^verbatim>\<open>await\<close> followed by the rest of the function:
  an error skips the rest.
\<close>

type_synonym 'a io = "(error + 'a) \<times> event list"

definition bind_io :: "'a io \<Rightarrow> ('a \<Rightarrow> 'b io) \<Rightarrow> 'b io" where
  "bind_io m f =
     (case m of
        (Inl e, tr) \<Rightarrow> (Inl e, tr)
      | (Inr v, tr) \<Rightarrow> (case f v of (r, tr') \<Rightarrow> (r, tr @ tr')))"

definition call_opt :: "event \<Rightarrow> string \<Rightarrow> 'a option \<Rightarrow> 'a io" where
  "call_opt ev lib r = (case r of None \<Rightarrow> (Inl (Rejected lib), [ev]) | Some v \<Rightarrow> (Inr v, [ev]))"

definition call_ok :: "event \<Rightarrow> string \<Rightarrow> bool \<Rightarrow> unit io" where
  "call_ok ev lib ok = (if ok then (Inr (), [ev]) else (Inl (Rejected lib), [ev]))"

subsection \<open>Configuration and the secret store\<close>

text \<open>
  \<^verbatim>\<open>
  const DEFAULT_SECRET = process.env.DEFAULT_SECRET || 'demo-secret';
  const GIT_USER_NAME = process.env.GIT_USER_NAME || 'Auto Builder';
  const GIT_USER_EMAIL = process.env.GIT_USER_EMAIL || 'autobuilder@example.com';
  const openai = OPENAI_API_KEY ? new OpenAI({ apiKey: OPENAI_API_KEY }) : null;
  const studentSecrets = new Map();
  studentSecrets.set('student@example.com', DEFAULT_SECRET);
  \<close>
  An environment variable is a string or \<^verbatim>\<open>undefined\<close>; the empty string is falsy.
\<close>

definition env_or :: "string option \<Rightarrow> string \<Rightarrow> string" where
  "env_or v d = (case v of None \<Rightarrow> d | Some s \<Rightarrow> if s \<noteq> [] then s else d)"

definition DEFAULT_SECRET :: "env \<Rightarrow> string" where
  "DEFAULT_SECRET env = env_or (DEFAULT_SECRET_var env) ''demo-secret''"

definition GIT_USER_NAME :: "env \<Rightarrow> string" where
  "GIT_USER_NAME env = env_or (GIT_USER_NAME_var env) ''Auto Builder''"

definition GIT_USER_EMAIL :: "env \<Rightarrow> string" where
  "GIT_USER_EMAIL env = env_or (GIT_USER_EMAIL_var env) ''autobuilder@example.com''"

definition openai :: "env \<Rightarrow> bool" where
  "openai env = (case OPENAI_API_KEY env of None \<Rightarrow> False | Some k \<Rightarrow> k \<noteq> [])"

definition studentSecrets :: "env \<Rightarrow> (string \<rightharpoonup> string)" where
  "studentSecrets env = [''student@example.com'' \<mapsto> DEFAULT_SECRET env]"

text \<open>\<^verbatim>\<open>studentSecrets.get(email)\<close>: only a string is a key of the map.\<close>

definition secrets_get :: "env \<Rightarrow> jsval \<Rightarrow> string option" where
  "secrets_get env email = (case email of JStr a \<Rightarrow> studentSecrets env a | _ \<Rightarrow> None)"

text \<open>
  \<^verbatim>\<open>
  function verifySecret(email, secret) {
    const expected = studentSecrets.get(email) || DEFAULT_SECRET;
    return secret === expected;
  }
  \<close>
\<close>

definition verifySecret :: "env \<Rightarrow> jsval \<Rightarrow> jsval \<Rightarrow> bool" where
  "verifySecret env email secret =
     (let expected = (case secrets_get env email of
                        None \<Rightarrow> DEFAULT_SECRET env
                      | Some s \<Rightarrow> if s \<noteq> [] then s else DEFAULT_SECRET env)
      in secret = JStr expected)"

subsection \<open>Strings\<close>

text \<open>
  A template literal \<^verbatim>\<open>`${v}`\<close>, and \<^verbatim>\<open>'...' + v\<close>, convert \<open>v\<close> to a string. A string is
  itself and the other primitives have fixed names. A number prints as the runtime formats
  the double, which is a parameter. An array prints as its elements joined by commas, with
  nothing for \<^verbatim>\<open>null\<close> and \<^verbatim>\<open>undefined\<close>. A plain object inherits
  \<^verbatim>\<open>Object.prototype.toString\<close> and prints as \<^verbatim>\<open>[object Object]\<close>, unless it has a
  property \<^verbatim>\<open>toString\<close> of its own: a JSON value is never callable, so the conversion
  finds no method that yields a primitive and throws a TypeError.
\<close>

fun to_str :: "env \<Rightarrow> jsval \<Rightarrow> error + string"
  and join_strs :: "env \<Rightarrow> jsval list \<Rightarrow> error + string" where
  "to_str env (JStr s) = Inr s"
| "to_str env JUndefined = Inr ''undefined''"
| "to_str env JNull = Inr ''null''"
| "to_str env (JBool b) = Inr (if b then ''true'' else ''false'')"
| "to_str env (JNum n) = Inr (number_toString env n)"
| "to_str env (JArr xs) = join_strs env xs"
| "to_str env (JObj kvs) =
     (if ''toString'' \<in> set (map fst kvs) then Inl TypeError else Inr ''[object Object]'')"
| "join_strs env [] = Inr []"
| "join_strs env (x # xs) =
     (case (if x = JNull \<or> x = JUndefined then Inr [] else to_str env x) of
        Inl e \<Rightarrow> Inl e
      | Inr s \<Rightarrow>
          (if xs = [] then Inr s
           else case join_strs env xs of
                  Inl e \<Rightarrow> Inl e
                | Inr r \<Rightarrow> Inr (s @ '','' @ r)))"

text \<open>
  \<^verbatim>\<open>for (const x of v)\<close>: an array gives its elements, a string its characters, and
  nothing else that JSON can produce is iterable.
\<close>

fun iterate :: "jsval \<Rightarrow> error + jsval list" where
  "iterate (JArr xs) = Inr xs"
| "iterate (JStr s) = Inr (map (\<lambda>c. JStr [c]) s)"
| "iterate v = Inl TypeError"

text \<open>
  \<^verbatim>\<open>v.k\<close> where \<open>v\<close> may be \<^verbatim>\<open>null\<close> or \<^verbatim>\<open>undefined\<close>, and the destructuring
  \<^verbatim>\<open>const { a, b } = v\<close>: both throw a TypeError on these two values.
\<close>

definition read_prop :: "jsval \<Rightarrow> string \<Rightarrow> jsval io" where
  "read_prop v k =
     (if v = JNull \<or> v = JUndefined then (Inl TypeError, []) else (Inr (get_prop v k), []))"

subsection \<open>The Attachment Materializer\<close>

text \<open>
  \<^verbatim>\<open>
  async function writeAttachments(attachments = [], targetDir) {
    await fs.ensureDir(targetDir);
    const written = [];
    for (const att of attachments || []) {
      const { name, url } = att;
      if (!name || !url) continue;
      const parsed = parser.parse(url);
      const filePath = `${targetDir}/${name}`;
      await fs.writeFile(filePath, parsed.content);
      written.push(filePath);
    }
    return written;
  }
  \<close>
  \<open>parser_parse env url\<close> is \<^verbatim>\<open>parser.parse(url).content\<close>.
\<close>

fun writeAttachments_loop :: "env \<Rightarrow> string \<Rightarrow> jsval list \<Rightarrow> string list \<Rightarrow> string list io" where
  "writeAttachments_loop env targetDir [] written = (Inr written, [])"
| "writeAttachments_loop env targetDir (att # rest) written =
     (if att = JNull \<or> att = JUndefined then (Inl TypeError, [])
      else if \<not> truthy (get_prop att ''name'') \<or> \<not> truthy (get_prop att ''url'')
      then writeAttachments_loop env targetDir rest written
      else
        bind_io (call_opt (DataUriParse (get_prop att ''url'')) ''datauri''
                   (parser_parse env (get_prop att ''url''))) (\<lambda>content.
        bind_io (to_str env (get_prop att ''name''), []) (\<lambda>name.
        bind_io (call_ok (WriteFile (targetDir @ ''/'' @ name) content)
                   ''fs'' (fs_writeFile env (targetDir @ ''/'' @ name) content)) (\<lambda>_.
        writeAttachments_loop env targetDir rest (written @ [targetDir @ ''/'' @ name])))))"

definition writeAttachments :: "env \<Rightarrow> jsval \<Rightarrow> string \<Rightarrow> string list io" where
  "writeAttachments env attachments targetDir =
     bind_io (call_ok (EnsureDir targetDir) ''fs'' (fs_ensureDir env targetDir)) (\<lambda>_.
     bind_io (iterate (or_else (if attachments = JUndefined then JArr [] else attachments) (JArr [])), []) (\<lambda>atts.
     writeAttachments_loop env targetDir atts []))"

subsection \<open>The Artifact Generator\<close>

text \<open>
  \<^verbatim>\<open>
  async function generateFilesWithLLM(brief, attachments) {
    if (!openai) {
      const files = [ { path: 'index.html', content: `<!doctype html>\n<html>...<p>${brief}</p>...</html>` } ];
      const readme = `# Auto-generated app\n\nBrief: ${brief}`;
      return { files, readme };
    }
    const prompt = `You are an assistant ... Brief:\n\n${brief}\n\nAttachments: ${JSON.stringify(attachments || [])}`;
    const resp = await openai.chat.completions.create({ model: 'gpt-4o-mini', messages: [...], max_tokens: 1500 });
    const text = resp.choices[0].message.content;
    try {
      const parsed = JSON.parse(text);
      return parsed;
    } catch (e) {
      return { files: [ { path: 'index.html', content: `...Failed to parse LLM output. See server logs....` } ],
               readme: `# Auto app\n\n(LLM output parse failed)` };
    }
  }
  \<close>
  \<open>openai_create env prompt\<close> is the \<^verbatim>\<open>content\<close> of the first choice of the completion,
  or \<open>None\<close> when the call rejects or the response has no such choice (a \<^verbatim>\<open>null\<close>
  content is the text \<^verbatim>\<open>null\<close> to \<^verbatim>\<open>JSON.parse\<close>). The call and the
  reading of its result stand before the \<^verbatim>\<open>try\<close>; only \<^verbatim>\<open>JSON.parse\<close> is inside.
\<close>

definition mock_files :: "string \<Rightarrow> jsval" where
  \<open>mock_files brief =
     JArr [JObj [(''path'', JStr ''index.html''),
                 (''content'', JStr (''<!doctype html>\<newline><html><head><meta charset="utf-8"><title>Auto App</title></head><body><h1>Auto-generated app</h1><p>''
                    @ brief
                    @ ''</p><div id="output"></div><script>document.getElementById('output').textContent = 'Generated at ' + new Date().toISOString();</script></body></html>''))]]\<close>

definition mock_readme :: "string \<Rightarrow> jsval" where
  "mock_readme brief = JStr (''# Auto-generated app\<newline>\<newline>Brief: '' @ brief)"

definition llm_prompt :: "env \<Rightarrow> string \<Rightarrow> jsval \<Rightarrow> string" where
  "llm_prompt env brief attachments =
     ''You are an assistant that returns a minimal static web app for the following brief. Reply ONLY with a JSON object: { files: [{ path, content }], readme } where content contains the exact file contents. Brief:\<newline>\<newline>''
     @ brief @ ''\<newline>\<newline>Attachments: ''
     @ JSON_stringify env (or_else attachments (JArr []))"

definition parse_failed_artifacts :: jsval where
  "parse_failed_artifacts =
     JObj [(''files'', JArr [JObj [(''path'', JStr ''index.html''),
              (''content'', JStr ''<!doctype html><html><body><h1>Generated app</h1><p>Failed to parse LLM output. See server logs.</p></body></html>'')]]),
           (''readme'', JStr ''# Auto app\<newline>\<newline>(LLM output parse failed)'')]"

text \<open>
  In both branches the first thing that can fail is the conversion of \<open>brief\<close> in a
  template literal; \<open>mock_files\<close>, \<open>mock_readme\<close> and \<open>llm_prompt\<close> take its text.
\<close>

definition generateFilesWithLLM :: "env \<Rightarrow> jsval \<Rightarrow> jsval \<Rightarrow> jsval io" where
  "generateFilesWithLLM env brief attachments =
     (if \<not> openai env then
        bind_io (to_str env brief, []) (\<lambda>brief_text.
        (Inr (JObj [(''files'', mock_files brief_text), (''readme'', mock_readme brief_text)]), []))
      else
        bind_io (to_str env brief, []) (\<lambda>brief_text.
        bind_io (call_opt (OpenAICreate (llm_prompt env brief_text attachments)) ''openai''
                   (openai_create env (llm_prompt env brief_text attachments))) (\<lambda>text.
        (case JSON_parse env text of
           Some parsed \<Rightarrow> (Inr parsed, [])
         | None \<Rightarrow> (Inr parse_failed_artifacts, [])))))"

subsection \<open>The repository name\<close>

text \<open>
  \<^verbatim>\<open>
  function shortName(task) {
    return (task || 'task').replace(/[^a-z0-9-]/gi, '-').toLowerCase().slice(0, 40);
  }
  \<close>
  The class \<^verbatim>\<open>[a-z0-9-]\<close> with the flag \<^verbatim>\<open>i\<close> holds the ASCII letters of both cases, the
  digits and the hyphen; without the flag \<^verbatim>\<open>u\<close> no code unit above 127 is in it. What
  \<^verbatim>\<open>replace\<close> leaves is ASCII, so \<^verbatim>\<open>toLowerCase\<close> only has capital ASCII letters to change.
  A truthy task that is no string has no method \<^verbatim>\<open>replace\<close>.
\<close>

definition in_class :: "char \<Rightarrow> bool" where
  "in_class c =
     (c \<in> set ''abcdefghijklmnopqrstuvwxyzABCDEFGHIJKLMNOPQRSTUVWXYZ0123456789-'')"

definition replace_outside :: "string \<Rightarrow> string" where
  "replace_outside s = map (\<lambda>c. if in_class c then c else CHR ''-'') s"

definition lower_char :: "char \<Rightarrow> char" where
  "lower_char c =
     (case map_of (zip ''ABCDEFGHIJKLMNOPQRSTUVWXYZ'' ''abcdefghijklmnopqrstuvwxyz'') c of
        Some l \<Rightarrow> l
      | None \<Rightarrow> c)"

definition toLowerCase :: "string \<Rightarrow> string" where
  "toLowerCase s = map lower_char s"

definition shortName :: "jsval \<Rightarrow> error + string" where
  "shortName task =
     (case or_else task (JStr ''task'') of
        JStr s \<Rightarrow> Inr (take 40 (toLowerCase (replace_outside s)))
      | _ \<Rightarrow> Inl TypeError)"

text \<open>
  \<^verbatim>\<open>Date.now().toString(36).slice(-6)\<close>: the clock is a whole number of milliseconds;
  base 36 writes it with the digits \<^verbatim>\<open>0-9a-z\<close> and a minus sign when it is negative.
\<close>

definition digit36 :: "nat \<Rightarrow> char" where
  "digit36 d = ''0123456789abcdefghijklmnopqrstuvwxyz'' ! d"

function to_base36 :: "nat \<Rightarrow> string" where
  "to_base36 n = (if n < 36 then [digit36 n] else to_base36 (n div 36) @ [digit36 (n mod 36)])"
  by pat_completeness auto
termination
  by (relation "measure id") auto

declare to_base36.simps [simp del]

definition toString36 :: "int \<Rightarrow> string" where
  "toString36 n = (if n < 0 then ''-'' @ to_base36 (nat (- n)) else to_base36 (nat n))"

definition slice_last :: "nat \<Rightarrow> string \<Rightarrow> string" where
  "slice_last k s = drop (length s - k) s"

text \<open>\<^verbatim>\<open>const repoName = `${shortName(task)}-${Date.now().toString(36).slice(-6)}`;\<close>\<close>

definition derive_repoName :: "env \<Rightarrow> string \<Rightarrow> string" where
  "derive_repoName env short = short @ ''-'' @ slice_last 6 (toString36 (date_now env))"

subsection \<open>The Repository Publisher\<close>

record publish_result =
  repo_url :: jsval
  commit_sha :: jsval

text \<open>
  \<^verbatim>\<open>
  for (const f of files) {
    const filePath = `${tmpDir}/${f.path}`;
    await fs.ensureDir(require('path').dirname(filePath));
    await fs.writeFile(filePath, f.content, 'utf8');
  }
  \<close>
  \<^verbatim>\<open>src/server.js\<close> is an ES module: it begins with \<^verbatim>\<open>import\<close> declarations and never
  imports \<^verbatim>\<open>path\<close> or creates a \<^verbatim>\<open>require\<close>. The identifier \<^verbatim>\<open>require\<close> is not defined in
  the scope of such a module, and evaluating it throws a ReferenceError, before
  \<^verbatim>\<open>fs.ensureDir\<close> is called. So the loop fails on the first file it has to write.
\<close>

definition require :: "string \<Rightarrow> (string \<Rightarrow> string) io" where
  "require module_name = (Inl ReferenceError, [])"

fun write_files :: "env \<Rightarrow> string \<Rightarrow> jsval list \<Rightarrow> unit io" where
  "write_files env tmpDir [] = (Inr (), [])"
| "write_files env tmpDir (f # rest) =
     (if f = JNull \<or> f = JUndefined then (Inl TypeError, [])
      else
        bind_io (to_str env (get_prop f ''path''), []) (\<lambda>path.
        bind_io (require ''path'') (\<lambda>dirname.
        bind_io (call_ok (EnsureDir (dirname (tmpDir @ ''/'' @ path)))
                   ''fs'' (fs_ensureDir env (dirname (tmpDir @ ''/'' @ path)))) (\<lambda>_.
        bind_io (call_ok (WriteFile (tmpDir @ ''/'' @ path) (get_prop f ''content''))
                   ''fs'' (fs_writeFile env (tmpDir @ ''/'' @ path) (get_prop f ''content''))) (\<lambda>_.
        write_files env tmpDir rest)))))"

definition git :: "env \<Rightarrow> git_cmd \<Rightarrow> unit io" where
  "git env c = call_ok (Git c) ''git'' (git_run env c)"

text \<open>
  \<^verbatim>\<open>
  async function createGithubRepoAndPush(owner, repoName, files, readme) {
    const { data: repo } = await octokit.repos.createForAuthenticatedUser({ name: repoName, ... });
    const tmpDir = tmp.dirSync({ unsafeCleanup: true }).name;
    await fs.ensureDir(tmpDir);
    for (const f of files) { ... }
    await fs.writeFile(`${tmpDir}/README.md`, readme || '# Auto-generated');
    await fs.writeFile(`${tmpDir}/LICENSE`, 'MIT');
    const git = simpleGit(tmpDir);
    await git.init();
    await git.addConfig('user.name', GIT_USER_NAME);
    await git.addConfig('user.email', GIT_USER_EMAIL);
    await git.add('./*');
    await git.commit('Initial auto-generated commit');
    await git.addRemote('origin', repo.clone_url);
    await git.push(['-u', 'origin', 'main']);
    const commitSha = (await octokit.repos.getCommit({ owner: repo.owner.login, repo: repo.name, ref: 'heads/main' })).data.sha;
    return { repo_url: repo.html_url, commit_sha: commitSha };
  }
  \<close>
\<close>

definition createGithubRepoAndPush :: "env \<Rightarrow> jsval \<Rightarrow> string \<Rightarrow> jsval \<Rightarrow> jsval \<Rightarrow> publish_result io" where
  "createGithubRepoAndPush env owner repoName files readme =
     bind_io (call_opt (CreateRepo repoName) ''octokit'' (octokit_create env repoName)) (\<lambda>repo.
     bind_io (call_opt (TmpDirSync 1) ''tmp'' (tmp_dirSync env 1)) (\<lambda>tmpDir.
     bind_io (call_ok (EnsureDir tmpDir) ''fs'' (fs_ensureDir env tmpDir)) (\<lambda>_.
     bind_io (iterate files, []) (\<lambda>fs.
     bind_io (write_files env tmpDir fs) (\<lambda>_.
     bind_io (call_ok (WriteFile (tmpDir @ ''/README.md'') (or_else readme (JStr ''# Auto-generated'')))
                ''fs'' (fs_writeFile env (tmpDir @ ''/README.md'') (or_else readme (JStr ''# Auto-generated'')))) (\<lambda>_.
     bind_io (call_ok (WriteFile (tmpDir @ ''/LICENSE'') (JStr ''MIT''))
                ''fs'' (fs_writeFile env (tmpDir @ ''/LICENSE'') (JStr ''MIT''))) (\<lambda>_.
     bind_io (git env GitInit) (\<lambda>_.
     bind_io (git env (GitAddConfig ''user.name'' (GIT_USER_NAME env))) (\<lambda>_.
     bind_io (git env (GitAddConfig ''user.email'' (GIT_USER_EMAIL env))) (\<lambda>_.
     bind_io (git env (GitAdd ''./*'')) (\<lambda>_.
     bind_io (git env (GitCommit ''Initial auto-generated commit'')) (\<lambda>_.
     bind_io (git env (GitAddRemote ''origin'' (clone_url repo))) (\<lambda>_.
     bind_io (git env (GitPush [''-u'', ''origin'', ''main''])) (\<lambda>_.
     bind_io (call_opt (GetCommit (owner_login repo) (repo_name repo)) ''octokit''
                (octokit_getCommit env (owner_login repo) (repo_name repo))) (\<lambda>commitSha.
     (Inr \<lparr>repo_url = html_url repo, commit_sha = commitSha\<rparr>, []))))))))))))))))"

subsection \<open>The Callback Notifier\<close>

text \<open>
  \<^verbatim>\<open>
  async function notifyEvaluationUrl(evaluation_url, body, maxRetries = 5) {
    let delay = 1000;
    for (let i = 0; i < maxRetries; i++) {
      try {
        const resp = await axios.post(evaluation_url, body, {...});
        if (resp.status >= 200 && resp.status < 300) return resp.data;
      } catch (e) { }
      await new Promise(r => setTimeout(r, delay));
      delay *= 2;
    }
    throw new Error('Failed to notify evaluation_url after retries');
  }
  \<close>
  The loop is \<open>notify_loop\<close>, with the loop variable \<open>i\<close> and \<open>delay\<close> as arguments.
\<close>

function notify_loop :: "env \<Rightarrow> jsval \<Rightarrow> jsval \<Rightarrow> nat \<Rightarrow> nat \<Rightarrow> nat \<Rightarrow> jsval io" where
  "notify_loop env evaluation_url body maxRetries i delay =
     (if i < maxRetries then
        (case axios_post env i evaluation_url body of
           HttpResponse st d \<Rightarrow>
             if 200 \<le> st \<and> st < 300 then (Inr d, [HttpPost evaluation_url body])
             else (case notify_loop env evaluation_url body maxRetries (Suc i) (delay * 2) of
                     (r, tr) \<Rightarrow> (r, HttpPost evaluation_url body # Sleep delay # tr))
         | HttpError \<Rightarrow>
             (case notify_loop env evaluation_url body maxRetries (Suc i) (delay * 2) of
                (r, tr) \<Rightarrow> (r, HttpPost evaluation_url body # Sleep delay # tr)))
      else (Inl NotifyFailed, []))"
  by pat_completeness auto
termination
  by (relation "measure (\<lambda>(env, u, b, m, i, d). m - i)") auto

declare notify_loop.simps [simp del]

definition notifyEvaluationUrl :: "env \<Rightarrow> jsval \<Rightarrow> jsval \<Rightarrow> nat \<Rightarrow> jsval io" where
  "notifyEvaluationUrl env evaluation_url body maxRetries =
     notify_loop env evaluation_url body maxRetries 0 1000"

text \<open>An attempt is delivered when it is answered with a 2xx status.\<close>

fun delivered :: "http_outcome \<Rightarrow> bool" where
  "delivered (HttpResponse st d) = (200 \<le> st \<and> st < 300)"
| "delivered HttpError = False"

fun is_post :: "event \<Rightarrow> bool" where
  "is_post (HttpPost u b) = True"
| "is_post e = False"

text \<open>The waits of a trace that are followed by a further attempt.\<close>

fun delays_between :: "event list \<Rightarrow> nat list" where
  "delays_between [] = []"
| "delays_between (Sleep d # rest) =
     (if list_ex is_post rest then d # delays_between rest else delays_between rest)"
| "delays_between (e # rest) = delays_between rest"

subsection \<open>The endpoint and the Job Orchestrator\<close>

text \<open>
  \<^verbatim>\<open>
  const tmpDir = tmp.dirSync({ unsafeCleanup: true }).name;
  await writeAttachments(attachments || [], tmpDir);
  const generated = await generateFilesWithLLM(brief || 'Auto app', attachments || []);
  const files = generated.files || [];
  const readme = generated.readme || ('# Auto-generated app\n\n' + (brief || ''));
  const repoName = `${shortName(task)}-${Date.now().toString(36).slice(-6)}`;
  \<close>
  The first six lines of the \<^verbatim>\<open>try\<close> block: they end with the three arguments of the
  publisher.
\<close>

definition prepare :: "env \<Rightarrow> jsval \<Rightarrow> jsval \<Rightarrow> jsval \<Rightarrow> (jsval \<times> jsval \<times> string) io" where
  "prepare env task brief attachments =
     bind_io (call_opt (TmpDirSync 0) ''tmp'' (tmp_dirSync env 0)) (\<lambda>tmpDir.
     bind_io (writeAttachments env (or_else attachments (JArr [])) tmpDir) (\<lambda>written.
     bind_io (generateFilesWithLLM env (or_else brief (JStr ''Auto app'')) (or_else attachments (JArr []))) (\<lambda>generated.
     bind_io (read_prop generated ''files'') (\<lambda>generated_files.
     bind_io (read_prop generated ''readme'') (\<lambda>generated_readme.
     bind_io (if truthy generated_readme then (Inr generated_readme, [])
              else bind_io (to_str env (or_else brief (JStr [])), []) (\<lambda>brief_text.
                   (Inr (JStr (''# Auto-generated app\<newline>\<newline>'' @ brief_text)), []))) (\<lambda>readme.
     bind_io (shortName task, []) (\<lambda>short.
     (Inr (or_else generated_files (JArr []), readme, derive_repoName env short), []))))))))"

text \<open>
  \<^verbatim>\<open>
  const notifyBody = { email, task, round, nonce,
    repo_url: result.repo_url, commit_sha: result.commit_sha, deploy_url: null };
  \<close>
\<close>

definition notifyBody :: "jsval \<Rightarrow> jsval \<Rightarrow> jsval \<Rightarrow> jsval \<Rightarrow> publish_result \<Rightarrow> jsval" where
  "notifyBody email task round' nonce result =
     JObj [(''email'', email), (''task'', task), (''round'', round'), (''nonce'', nonce),
           (''repo_url'', repo_url result), (''commit_sha'', commit_sha result),
           (''deploy_url'', JNull)]"

text \<open>The \<^verbatim>\<open>try\<close> block: the six lines above, then publish, build the payload, notify, log.\<close>

definition pipeline :: "env \<Rightarrow> jsval \<Rightarrow> jsval \<Rightarrow> jsval \<Rightarrow> jsval \<Rightarrow> jsval \<Rightarrow> jsval \<Rightarrow> jsval \<Rightarrow> unit io" where
  "pipeline env email task round' nonce brief evaluation_url attachments =
     bind_io (prepare env task brief attachments) (\<lambda>(files, readme, repoName).
     bind_io (createGithubRepoAndPush env JNull repoName files readme) (\<lambda>result.
     bind_io (notifyEvaluationUrl env evaluation_url (notifyBody email task round' nonce result) 5) (\<lambda>_.
     (Inr (), [ConsoleLog ''Notified evaluation_url for'' task]))))"

text \<open>
  \<^verbatim>\<open>
  app.post('/api-endpoint', async (req, res) => {
    const payload = req.body;
    const { email, secret, task, round, nonce, brief, checks, evaluation_url, attachments } = payload || {};
    if (!email || !task || !round || !nonce || !evaluation_url)
      return res.status(400).json({ error: 'missing required fields' });
    if (!verifySecret(email, secret)) return res.status(401).json({ error: 'invalid secret' });
    res.status(200).json({ status: 'accepted' });
    try { ... } catch (err) { console.error('Processing failed:', err); }
  });
  \<close>
  The handler's value is its trace: the response first, then what the pipeline did.
\<close>

definition handler :: "env \<Rightarrow> jsval \<Rightarrow> event list" where
  "handler env req_body =
     (let payload = or_else req_body (JObj []);
          email = get_prop payload ''email'';
          secret = get_prop payload ''secret'';
          task = get_prop payload ''task'';
          round' = get_prop payload ''round'';
          nonce = get_prop payload ''nonce'';
          brief = get_prop payload ''brief'';
          evaluation_url = get_prop payload ''evaluation_url'';
          attachments = get_prop payload ''attachments''
      in
        if \<not> truthy email \<or> \<not> truthy task \<or> \<not> truthy round' \<or> \<not> truthy nonce
           \<or> \<not> truthy evaluation_url
        then [Respond 400 (JObj [(''error'', JStr ''missing required fields'')])]
        else if \<not> verifySecret env email secret
        then [Respond 401 (JObj [(''error'', JStr ''invalid secret'')])]
        else
          Respond 200 (JObj [(''status'', JStr ''accepted'')]) #
          (case pipeline env email task round' nonce brief evaluation_url attachments of
             (Inl err, tr) \<Rightarrow> tr @ [ConsoleError ''Processing failed:'' err]
           | (Inr u, tr) \<Rightarrow> tr))"

subsection \<open>Vocabulary of the properties\<close>

text \<open>
  \<open>field body k\<close> is what the handler's destructuring binds to the name \<open>k\<close>. A request is
  accepted when it passes both checks of the handler, which is when the pipeline starts.
\<close>

abbreviation field :: "jsval \<Rightarrow> string \<Rightarrow> jsval" where
  "field req_body k \<equiv> get_prop (or_else req_body (JObj [])) k"

definition required_fields :: "string list" where
  "required_fields = [''email'', ''task'', ''round'', ''nonce'', ''evaluation_url'']"

definition accepted :: "env \<Rightarrow> jsval \<Rightarrow> bool" where
  "accepted env req_body =
     (list_all (\<lambda>k. truthy (field req_body k)) required_fields
      \<and> verifySecret env (field req_body ''email'') (field req_body ''secret''))"

text \<open>
  The secret the specification expects of a request: the stored one for an email the store
  knows, the fallback default for any other.
\<close>

definition expected_secret :: "env \<Rightarrow> jsval \<Rightarrow> string" where
  "expected_secret env email =
     (case secrets_get env email of Some s \<Rightarrow> s | None \<Rightarrow> DEFAULT_SECRET env)"

text \<open>
  Kinds of events: the publisher starts with \<open>CreateRepo\<close>, the generator's only effect is
  the backend call, the materializer only touches the local disk and the data-URI parser.
\<close>

fun is_create_repo :: "event \<Rightarrow> bool" where
  "is_create_repo (CreateRepo n) = True"
| "is_create_repo e = False"

fun is_generate :: "event \<Rightarrow> bool" where
  "is_generate (OpenAICreate p) = True"
| "is_generate e = False"

fun is_local :: "event \<Rightarrow> bool" where
  "is_local (EnsureDir d) = True"
| "is_local (DataUriParse u) = True"
| "is_local (WriteFile p c) = True"
| "is_local e = False"

definition before_publish :: "event \<Rightarrow> bool" where
  "before_publish e = (\<not> is_create_repo e \<and> \<not> is_post e)"

text \<open>
  The slug as the specification words it: a character of \<^verbatim>\<open>[a-z0-9-]\<close> stays, a capital
  letter becomes its small letter, any other character becomes a hyphen; at most 40
  characters are kept.
\<close>

definition slug_chars :: string where
  "slug_chars = ''abcdefghijklmnopqrstuvwxyz0123456789-''"

definition spec_slug_char :: "char \<Rightarrow> char" where
  "spec_slug_char c =
     (if c \<in> set slug_chars then c
      else case map_of (zip ''ABCDEFGHIJKLMNOPQRSTUVWXYZ'' ''abcdefghijklmnopqrstuvwxyz'') c of
             Some l \<Rightarrow> l
           | None \<Rightarrow> CHR ''-'')"

definition spec_slug :: "string \<Rightarrow> string" where
  "spec_slug t = take 40 (map spec_slug_char t)"

subsection \<open>Example environments and requests\<close>

text \<open>
  \<open>env_ok\<close>: no backend key, a clock in November 2023, and every library call succeeds;
  the callback answers 200 at once. \<open>env_backend_empty\<close> has a backend whose reply is a
  JSON object with an empty file list, so that the publisher has no file to write before
  the readme. The others differ from these two as their names say. No example converts a
  number to a string, so \<open>number_toString\<close> is only given on 0 and 1.
\<close>

definition env_ok :: env where
  "env_ok =
     \<lparr>OPENAI_API_KEY = None, DEFAULT_SECRET_var = None, GIT_USER_NAME_var = None,
      GIT_USER_EMAIL_var = None, date_now = 1700000000000,
      number_toString = (\<lambda>n. if n = 1 then ''1'' else ''0''), JSON_stringify = (\<lambda>v. ''[]''),
      JSON_parse = (\<lambda>s. None),
      tmp_dirSync = (\<lambda>k. Some (if k = 0 then ''/tmp/job'' else ''/tmp/repo'')),
      fs_ensureDir = (\<lambda>p. True), fs_writeFile = (\<lambda>p c. True),
      parser_parse = (\<lambda>u. Some u), openai_create = (\<lambda>p. None),
      octokit_create = (\<lambda>n. Some \<lparr>repo_name = JStr n, owner_login = JStr ''octo'',
         clone_url = JStr ''https://github.com/octo/r.git'',
         html_url = JStr ''https://github.com/octo/r''\<rparr>),
      git_run = (\<lambda>c. True), octokit_getCommit = (\<lambda>ow r. Some (JStr ''c0ffee'')),
      axios_post = (\<lambda>i u b. HttpResponse 200 JNull)\<rparr>"

definition empty_reply :: string where
  \<open>empty_reply = ''{"files":[],"readme":"# Empty app"}''\<close>

definition env_backend_empty :: env where
  "env_backend_empty =
     env_ok\<lparr>OPENAI_API_KEY := Some ''sk-test'',
       openai_create := (\<lambda>p. Some empty_reply),
       JSON_parse := (\<lambda>s. if s = empty_reply
                          then Some (JObj [(''files'', JArr []), (''readme'', JStr ''# Empty app'')])
                          else None)\<rparr>"

definition env_unreachable :: env where
  "env_unreachable =
     env_ok\<lparr>axios_post := (\<lambda>i u b. if i = 3 then HttpResponse 503 JNull else HttpError)\<rparr>"

definition env_callback_down :: env where
  "env_callback_down = env_backend_empty\<lparr>axios_post := (\<lambda>i u b. HttpError)\<rparr>"

definition env_backend_down :: env where
  "env_backend_down =
     env_ok\<lparr>OPENAI_API_KEY := Some ''sk-test'', openai_create := (\<lambda>p. None)\<rparr>"

definition env_backend_garbage :: env where
  "env_backend_garbage =
     env_ok\<lparr>OPENAI_API_KEY := Some ''sk-test'',
       openai_create := (\<lambda>p. Some ''Sure! Here is your app'')\<rparr>"

definition env_bad_datauri :: env where
  "env_bad_datauri =
     env_ok\<lparr>OPENAI_API_KEY := Some ''sk-test'',
       openai_create := (\<lambda>p. Some ''Sure! Here is your app''),
       parser_parse := (\<lambda>u. None)\<rparr>"

definition env_repo_rejected :: env where
  "env_repo_rejected = env_ok\<lparr>octokit_create := (\<lambda>n. None)\<rparr>"

definition env_push_rejected :: env where
  "env_push_rejected =
     env_backend_empty\<lparr>git_run := (\<lambda>c. c \<noteq> GitPush [''-u'', ''origin'', ''main''])\<rparr>"

text \<open>The request of the specification's end-to-end scenario, and variants of it.\<close>

definition req_demo :: jsval where
  "req_demo =
     JObj [(''email'', JStr ''student@example.com''),
           (''secret'', JStr ''demo-secret''),
           (''task'', JStr ''My Task''),
           (''round'', JNum 1),
           (''nonce'', JStr ''n1''),
           (''brief'', JStr ''todo app''),
           (''evaluation_url'', JStr ''http://test/cb'')]"

definition req_no_nonce :: jsval where
  "req_no_nonce =
     JObj [(''email'', JStr ''student@example.com''),
           (''secret'', JStr ''demo-secret''),
           (''task'', JStr ''My Task''),
           (''round'', JNum 1),
           (''brief'', JStr ''todo app''),
           (''evaluation_url'', JStr ''http://test/cb'')]"

definition req_round_zero :: jsval where
  "req_round_zero =
     JObj [(''email'', JStr ''student@example.com''),
           (''secret'', JStr ''demo-secret''),
           (''task'', JStr ''My Task''),
           (''round'', JNum 0),
           (''nonce'', JStr ''n1''),
           (''brief'', JStr ''todo app''),
           (''evaluation_url'', JStr ''http://test/cb'')]"

definition req_round_zero_bad_secret :: jsval where
  "req_round_zero_bad_secret =
     JObj [(''email'', JStr ''student@example.com''),
           (''secret'', JStr ''guess''),
           (''task'', JStr ''My Task''),
           (''round'', JNum 0),
           (''nonce'', JStr ''n1''),
           (''brief'', JStr ''todo app''),
           (''evaluation_url'', JStr ''http://test/cb'')]"

definition req_bad_secret :: jsval where
  "req_bad_secret =
     JObj [(''email'', JStr ''student@example.com''),
           (''secret'', JStr ''guess''),
           (''task'', JStr ''My Task''),
           (''round'', JNum 1),
           (''nonce'', JStr ''n1''),
           (''brief'', JStr ''todo app''),
           (''evaluation_url'', JStr ''http://test/cb'')]"

definition req_stranger_bad_secret :: jsval where
  "req_stranger_bad_secret =
     JObj [(''email'', JStr ''stranger@example.org''),
           (''secret'', JStr ''guess''),
           (''task'', JStr ''My Task''),
           (''round'', JNum 1),
           (''nonce'', JStr ''n1''),
           (''brief'', JStr ''todo app''),
           (''evaluation_url'', JStr ''http://test/cb'')]"

definition req_attachment :: jsval where
  "req_attachment =
     JObj [(''email'', JStr ''student@example.com''),
           (''secret'', JStr ''demo-secret''),
           (''task'', JStr ''My Task''),
           (''round'', JNum 1),
           (''nonce'', JStr ''n1''),
           (''brief'', JStr ''todo app''),
           (''evaluation_url'', JStr ''http://test/cb''),
           (''attachments'', JArr [JObj [(''name'', JStr ''logo.png''),
                                    (''url'', JStr ''data:image/png;base64,AAAA'')]])]"

section \<open>Properties\<close>

subsection \<open>The Callback Notifier\<close>

lemma notify_loop_failed_step:
  assumes "i < maxRetries" and "\<not> delivered (axios_post env i u b)"
    and "notify_loop env u b maxRetries j delay' = (r, tr)"
    and "j = Suc i" and "delay' = delay * 2"
  shows "notify_loop env u b maxRetries i delay = (r, HttpPost u b # Sleep delay # tr)"
  using assms
  by (subst notify_loop.simps) (auto split: http_outcome.splits prod.splits)

lemma notify_loop_exhausted:
  "\<not> i < maxRetries \<Longrightarrow> notify_loop env u b maxRetries i delay = (Inl NotifyFailed, [])"
  by (subst notify_loop.simps) simp

lemma notify_loop_delivered:
  assumes "i < maxRetries" and "axios_post env i u b = HttpResponse st d"
    and "200 \<le> st" and "st < 300"
  shows "notify_loop env u b maxRetries i delay = (Inr d, [HttpPost u b])"
  using assms by (subst notify_loop.simps) simp

lemma notify_all_fail_trace:
  assumes "\<forall>i<5. \<not> delivered (axios_post env i u b)"
  shows "notifyEvaluationUrl env u b 5 =
     (Inl NotifyFailed,
      [HttpPost u b, Sleep 1000, HttpPost u b, Sleep 2000, HttpPost u b, Sleep 4000,
       HttpPost u b, Sleep 8000, HttpPost u b, Sleep 16000])"
proof -
  have f: "\<not> delivered (axios_post env 0 u b)" "\<not> delivered (axios_post env 1 u b)"
    "\<not> delivered (axios_post env 2 u b)" "\<not> delivered (axios_post env 3 u b)"
    "\<not> delivered (axios_post env 4 u b)"
    using assms by simp_all
  have l5: "notify_loop env u b 5 5 32000 = (Inl NotifyFailed, [])"
    by (rule notify_loop_exhausted) simp
  have l4: "notify_loop env u b 5 4 16000 = (Inl NotifyFailed, [HttpPost u b, Sleep 16000])"
    by (rule notify_loop_failed_step [OF _ _ l5]) (use f in simp_all)
  have l3: "notify_loop env u b 5 3 8000 =
      (Inl NotifyFailed, [HttpPost u b, Sleep 8000, HttpPost u b, Sleep 16000])"
    by (rule notify_loop_failed_step [OF _ _ l4]) (use f in simp_all)
  have l2: "notify_loop env u b 5 2 4000 =
      (Inl NotifyFailed,
       [HttpPost u b, Sleep 4000, HttpPost u b, Sleep 8000, HttpPost u b, Sleep 16000])"
    by (rule notify_loop_failed_step [OF _ _ l3]) (use f in simp_all)
  have l1: "notify_loop env u b 5 1 2000 =
      (Inl NotifyFailed,
       [HttpPost u b, Sleep 2000, HttpPost u b, Sleep 4000, HttpPost u b, Sleep 8000,
        HttpPost u b, Sleep 16000])"
    by (rule notify_loop_failed_step [OF _ _ l2]) (use f in simp_all)
  show ?thesis
    unfolding notifyEvaluationUrl_def
    by (rule notify_loop_failed_step [OF _ _ l1]) (use f in simp_all)
qed

text \<open>
  Claim C1. Whatever the callback URL and the payload: when none of the five attempts is
  delivered (each is answered with a status outside 200..299 or fails in transport), the
  notifier posts exactly five times, waits 1000, 2000, 4000 and 8000 milliseconds between
  consecutive attempts and then throws its delivery failure; when the first attempt is
  delivered, it posts once, waits for nothing and returns the response's data. The first
  conjunct is the whole trace: the source also waits 16000 milliseconds after the fifth
  attempt, before it throws.
\<close>

theorem notifier_five_attempts_doubling:
  "((\<forall>i<5. \<not> delivered (axios_post env i u b)) \<longrightarrow>
      notifyEvaluationUrl env u b 5 =
        (Inl NotifyFailed,
         [HttpPost u b, Sleep 1000, HttpPost u b, Sleep 2000, HttpPost u b, Sleep 4000,
          HttpPost u b, Sleep 8000, HttpPost u b, Sleep 16000])
      \<and> length (filter is_post (snd (notifyEvaluationUrl env u b 5))) = 5
      \<and> delays_between (snd (notifyEvaluationUrl env u b 5)) = [1000, 2000, 4000, 8000])
   \<and> (delivered (axios_post env 0 u b) \<longrightarrow>
        (\<exists>st d. axios_post env 0 u b = HttpResponse st d
           \<and> notifyEvaluationUrl env u b 5 = (Inr d, [HttpPost u b])))"
proof (intro conjI impI)
  assume a: "\<forall>i<5. \<not> delivered (axios_post env i u b)"
  note t = notify_all_fail_trace [OF a]
  show "notifyEvaluationUrl env u b 5 =
        (Inl NotifyFailed,
         [HttpPost u b, Sleep 1000, HttpPost u b, Sleep 2000, HttpPost u b, Sleep 4000,
          HttpPost u b, Sleep 8000, HttpPost u b, Sleep 16000])"
    by (rule t)
  show "length (filter is_post (snd (notifyEvaluationUrl env u b 5))) = 5"
    by (simp add: t)
  show "delays_between (snd (notifyEvaluationUrl env u b 5)) = [1000, 2000, 4000, 8000]"
    by (simp add: t)
next
  assume d: "delivered (axios_post env 0 u b)"
  then obtain st dat where r: "axios_post env 0 u b = HttpResponse st dat"
    and ok: "200 \<le> st" "st < 300"
    by (cases "axios_post env 0 u b") auto
  have "notifyEvaluationUrl env u b 5 = (Inr dat, [HttpPost u b])"
    unfolding notifyEvaluationUrl_def
    by (rule notify_loop_delivered [OF _ r ok]) simp
  with r show "\<exists>st d. axios_post env 0 u b = HttpResponse st d
           \<and> notifyEvaluationUrl env u b 5 = (Inr d, [HttpPost u b])"
    by blast
qed

theorem notifier_five_attempts_doubling_witness:
  "\<not> delivered (axios_post env_unreachable 0 (JStr ''http://test/cb'') JNull)
   \<and> \<not> delivered (axios_post env_unreachable 1 (JStr ''http://test/cb'') JNull)
   \<and> \<not> delivered (axios_post env_unreachable 2 (JStr ''http://test/cb'') JNull)
   \<and> \<not> delivered (axios_post env_unreachable 3 (JStr ''http://test/cb'') JNull)
   \<and> \<not> delivered (axios_post env_unreachable 4 (JStr ''http://test/cb'') JNull)
   \<and> notifyEvaluationUrl env_unreachable (JStr ''http://test/cb'') JNull 5 =
        (Inl NotifyFailed,
         [HttpPost (JStr ''http://test/cb'') JNull, Sleep 1000,
          HttpPost (JStr ''http://test/cb'') JNull, Sleep 2000,
          HttpPost (JStr ''http://test/cb'') JNull, Sleep 4000,
          HttpPost (JStr ''http://test/cb'') JNull, Sleep 8000,
          HttpPost (JStr ''http://test/cb'') JNull, Sleep 16000])
   \<and> delivered (axios_post env_ok 0 (JStr ''http://test/cb'') JNull)
   \<and> notifyEvaluationUrl env_ok (JStr ''http://test/cb'') JNull 5 =
        (Inr JNull, [HttpPost (JStr ''http://test/cb'') JNull])"
  using notifier_five_attempts_doubling [of env_unreachable "JStr ''http://test/cb''" JNull]
    notifier_five_attempts_doubling [of env_ok "JStr ''http://test/cb''" JNull]
  by (simp add: env_unreachable_def env_ok_def)

subsection \<open>Evaluating the examples\<close>

lemmas env_simps = env_ok_def env_backend_empty_def env_unreachable_def env_callback_down_def
  env_backend_down_def
  env_backend_garbage_def env_bad_datauri_def env_repo_rejected_def env_push_rejected_def

lemmas req_simps = req_demo_def req_no_nonce_def req_round_zero_def
  req_round_zero_bad_secret_def req_bad_secret_def req_stranger_bad_secret_def
  req_attachment_def

lemmas secret_simps = verifySecret_def expected_secret_def secrets_get_def studentSecrets_def
  DEFAULT_SECRET_def env_or_def

subsection \<open>Request validation\<close>

lemma handler_rejects:
  assumes "k \<in> set required_fields" and "\<not> truthy (field body k)"
  shows "handler env body = [Respond 400 (JObj [(''error'', JStr ''missing required fields'')])]"
  using assms unfolding handler_def required_fields_def Let_def by auto

text \<open>
  Claim C4. A request body in which one of \<^verbatim>\<open>email\<close>, \<^verbatim>\<open>task\<close>, \<^verbatim>\<open>round\<close>, \<^verbatim>\<open>nonce\<close>,
  \<^verbatim>\<open>evaluation_url\<close> is missing is answered with status 400 and the error body, and that
  response is the whole trace: nothing is written, generated, published or posted.
\<close>

theorem missing_field_rejected:
  assumes "k \<in> set required_fields" and "field body k = JUndefined"
  shows "handler env body = [Respond 400 (JObj [(''error'', JStr ''missing required fields'')])]"
  using assms by (intro handler_rejects [of k]) simp_all

theorem missing_field_rejected_witness:
  "''nonce'' \<in> set required_fields \<and> field req_no_nonce ''nonce'' = JUndefined
   \<and> handler env_ok req_no_nonce = [Respond 400 (JObj [(''error'', JStr ''missing required fields'')])]"
  using missing_field_rejected [of "''nonce''" req_no_nonce env_ok]
  by (simp add: required_fields_def req_simps or_else_def)

text \<open>
  Claim C10. A required field that is present in the body with a falsy value (\<^verbatim>\<open>0\<close>, the
  empty string, \<^verbatim>\<open>false\<close>, \<^verbatim>\<open>null\<close>) is treated as missing: status 400 with the
  \<^verbatim>\<open>missing required fields\<close> body, and nothing else happens.
\<close>

theorem falsy_field_rejected:
  assumes "k \<in> set required_fields"
    and "field body k \<noteq> JUndefined" and "\<not> truthy (field body k)"
  shows "handler env body = [Respond 400 (JObj [(''error'', JStr ''missing required fields'')])]"
  using assms by (intro handler_rejects [of k]) simp_all

theorem falsy_field_rejected_witness:
  "''round'' \<in> set required_fields \<and> field req_round_zero ''round'' = JNum 0
   \<and> JNum 0 \<noteq> JUndefined \<and> \<not> truthy (JNum 0)
   \<and> handler env_ok req_round_zero = [Respond 400 (JObj [(''error'', JStr ''missing required fields'')])]"
  using falsy_field_rejected [of "''round''" req_round_zero env_ok]
  by (simp add: required_fields_def req_simps or_else_def)

lemma DEFAULT_SECRET_nonempty: "DEFAULT_SECRET env \<noteq> []"
  by (simp add: DEFAULT_SECRET_def env_or_def split: option.splits)

lemma verifySecret_expected:
  "verifySecret env email secret = (secret = JStr (expected_secret env email))"
  using DEFAULT_SECRET_nonempty [of env]
  by (auto simp: verifySecret_def expected_secret_def secrets_get_def studentSecrets_def Let_def
      split: option.splits jsval.splits if_splits)

text \<open>
  Claim C5, as stated, fails on a request whose required fields are all present but one of
  them falsy: with \<^verbatim>\<open>round\<close> equal to 0 and a wrong secret the answer is 400, not 401,
  because the check of the fields comes first.
\<close>

theorem secret_check_counterexample:
  "list_all (\<lambda>k. field req_round_zero_bad_secret k \<noteq> JUndefined) required_fields
   \<and> field req_round_zero_bad_secret ''secret''
       \<noteq> JStr (expected_secret env_ok (field req_round_zero_bad_secret ''email''))
   \<and> handler env_ok req_round_zero_bad_secret
       = [Respond 400 (JObj [(''error'', JStr ''missing required fields'')])]
   \<and> handler env_ok req_round_zero_bad_secret
       \<noteq> [Respond 401 (JObj [(''error'', JStr ''invalid secret'')])]"
  by (simp add: handler_def required_fields_def req_simps or_else_def secret_simps env_simps)

text \<open>
  Claim C5, amended. For a request whose required fields are all present and truthy: when
  the supplied secret differs from the expected one (the stored secret for a known email,
  the fallback default for an unknown one) the answer is 401 with the error body and
  nothing else happens; when it equals the expected one, the request is accepted with 200.
\<close>

theorem secret_check:
  assumes "list_all (\<lambda>k. truthy (field body k)) required_fields"
  shows "(field body ''secret'' \<noteq> JStr (expected_secret env (field body ''email'')) \<longrightarrow>
            handler env body = [Respond 401 (JObj [(''error'', JStr ''invalid secret'')])])
       \<and> (field body ''secret'' = JStr (expected_secret env (field body ''email'')) \<longrightarrow>
            hd (handler env body) = Respond 200 (JObj [(''status'', JStr ''accepted'')]))"
  using assms unfolding handler_def required_fields_def Let_def
  by (simp add: verifySecret_expected)

theorem secret_check_witness:
  "list_all (\<lambda>k. truthy (field req_bad_secret k)) required_fields
   \<and> field req_bad_secret ''secret'' \<noteq> JStr (expected_secret env_ok (field req_bad_secret ''email''))
   \<and> handler env_ok req_bad_secret = [Respond 401 (JObj [(''error'', JStr ''invalid secret'')])]
   \<and> list_all (\<lambda>k. truthy (field req_stranger_bad_secret k)) required_fields
   \<and> secrets_get env_ok (field req_stranger_bad_secret ''email'') = None
   \<and> field req_stranger_bad_secret ''secret'' \<noteq> JStr (DEFAULT_SECRET env_ok)
   \<and> handler env_ok req_stranger_bad_secret = [Respond 401 (JObj [(''error'', JStr ''invalid secret'')])]
   \<and> list_all (\<lambda>k. truthy (field req_demo k)) required_fields
   \<and> field req_demo ''secret'' = JStr (expected_secret env_ok (field req_demo ''email''))
   \<and> hd (handler env_ok req_demo) = Respond 200 (JObj [(''status'', JStr ''accepted'')])"
  using secret_check [of req_bad_secret env_ok] secret_check [of req_stranger_bad_secret env_ok]
    secret_check [of req_demo env_ok]
  by (simp add: required_fields_def req_simps or_else_def secret_simps env_simps)

subsection \<open>Traces of the pipeline\<close>

lemma bind_io_all:
  assumes "list_all Q (snd m)" and "\<And>v. list_all Q (snd (f v))"
  shows "list_all Q (snd (bind_io m f))"
proof (cases m)
  case (Pair r tr)
  show ?thesis
  proof (cases r)
    case (Inl e)
    with Pair assms(1) show ?thesis by (simp add: bind_io_def)
  next
    case (Inr v)
    with Pair assms(1) assms(2) [of v] show ?thesis
      by (cases "f v") (simp add: bind_io_def)
  qed
qed

lemma call_opt_all: "Q ev \<Longrightarrow> list_all Q (snd (call_opt ev lib r))"
  by (simp add: call_opt_def split: option.splits)

lemma call_ok_all: "Q ev \<Longrightarrow> list_all Q (snd (call_ok ev lib ok))"
  by (simp add: call_ok_def)

lemma silent_all: "list_all Q (snd (r, []))"
  by simp

lemma if_all:
  "list_all Q (snd a) \<Longrightarrow> list_all Q (snd b) \<Longrightarrow> list_all Q (snd (if c then a else b))"
  by simp

lemma list_all_weaken: "list_all P xs \<Longrightarrow> (\<And>x. P x \<Longrightarrow> Q x) \<Longrightarrow> list_all Q xs"
  by (induction xs) auto

lemma filter_none: "list_all (\<lambda>e. \<not> P e) xs \<Longrightarrow> filter P xs = []"
  by (induction xs) auto

lemma writeAttachments_loop_local:
  "list_all is_local (snd (writeAttachments_loop env dir atts written))"
proof (induction atts arbitrary: written)
  case Nil
  show ?case by simp
next
  case (Cons att rest)
  show ?case
    by (simp add: Cons.IH bind_io_all call_opt_all call_ok_all)
qed

lemma writeAttachments_local:
  "list_all is_local (snd (writeAttachments env atts dir))"
  unfolding writeAttachments_def
  by (intro bind_io_all call_ok_all writeAttachments_loop_local) simp_all

lemma generate_events:
  "list_all is_generate (snd (generateFilesWithLLM env brief atts))"
  unfolding generateFilesWithLLM_def
  by (auto intro!: bind_io_all call_opt_all split: option.splits)

lemma read_prop_events: "snd (read_prop v k) = []"
  by (simp add: read_prop_def)

lemma local_before_publish: "is_local e \<Longrightarrow> before_publish e"
  by (cases e) (simp_all add: before_publish_def)

lemma generate_before_publish: "is_generate e \<Longrightarrow> before_publish e"
  by (cases e) (simp_all add: before_publish_def)

lemma prepare_before_publish:
  "list_all before_publish (snd (prepare env task brief atts))"
  unfolding prepare_def
proof (intro bind_io_all call_opt_all if_all silent_all)
  show "before_publish (TmpDirSync 0)"
    by (simp add: before_publish_def)
  show "list_all before_publish (snd (writeAttachments env (or_else atts (JArr [])) tmpDir))"
    for tmpDir
    by (rule list_all_weaken [OF writeAttachments_local local_before_publish])
  show "list_all before_publish
          (snd (generateFilesWithLLM env (or_else brief (JStr ''Auto app'')) (or_else atts (JArr []))))"
    by (rule list_all_weaken [OF generate_events generate_before_publish])
  show "list_all before_publish (snd (read_prop g ''files''))" for g
    by (simp add: read_prop_events)
  show "list_all before_publish (snd (read_prop g ''readme''))" for g
    by (simp add: read_prop_events)
qed

lemma write_files_no_post:
  "list_all (\<lambda>e. \<not> is_post e) (snd (write_files env dir fs))"
proof (induction fs)
  case Nil
  show ?case by simp
next
  case (Cons f rest)
  show ?case
    by (simp add: Cons.IH bind_io_all call_ok_all require_def)
qed

lemma publish_no_post:
  "list_all (\<lambda>e. \<not> is_post e) (snd (createGithubRepoAndPush env owner name files readme))"
  unfolding createGithubRepoAndPush_def git_def
  by (intro bind_io_all call_opt_all call_ok_all write_files_no_post) simp_all

lemma prepare_no_post: "filter is_post (snd (prepare env task brief atts)) = []"
  by (rule filter_none, rule list_all_weaken [OF prepare_before_publish])
     (simp add: before_publish_def)

lemma publish_filter_post:
  "filter is_post (snd (createGithubRepoAndPush env owner name files readme)) = []"
  by (rule filter_none [OF publish_no_post])

lemma handler_accepted:
  assumes "accepted env body"
  shows "handler env body =
     Respond 200 (JObj [(''status'', JStr ''accepted'')]) #
     (case pipeline env (field body ''email'') (field body ''task'') (field body ''round'')
             (field body ''nonce'') (field body ''brief'') (field body ''evaluation_url'')
             (field body ''attachments'') of
        (Inl err, tr) \<Rightarrow> tr @ [ConsoleError ''Processing failed:'' err]
      | (Inr u, tr) \<Rightarrow> tr)"
  using assms unfolding handler_def accepted_def required_fields_def Let_def by simp

lemma pipeline_prepare_fails:
  assumes "fst (prepare env task brief atts) = Inl e"
  shows "pipeline env email task round' nonce brief url atts =
           (Inl e, snd (prepare env task brief atts))"
  using assms unfolding pipeline_def
  by (cases "prepare env task brief atts") (simp add: bind_io_def)

lemma pipeline_publish_fails:
  assumes "prepare env task brief atts = (Inr (files, readme, name), t1)"
    and "createGithubRepoAndPush env JNull name files readme = (Inl e, t2)"
  shows "pipeline env email task round' nonce brief url atts = (Inl e, t1 @ t2)"
  using assms unfolding pipeline_def by (simp add: bind_io_def)

lemma pipeline_published:
  assumes "prepare env task brief atts = (Inr (files, readme, name), t1)"
    and "createGithubRepoAndPush env JNull name files readme = (Inr result, t2)"
  shows "pipeline env email task round' nonce brief url atts =
     (case notifyEvaluationUrl env url (notifyBody email task round' nonce result) 5 of
        (Inl e, t3) \<Rightarrow> (Inl e, t1 @ t2 @ t3)
      | (Inr d, t3) \<Rightarrow> (Inr (), t1 @ t2 @ t3 @ [ConsoleLog ''Notified evaluation_url for'' task]))"
  using assms unfolding pipeline_def
  by (simp add: bind_io_def split: prod.splits sum.splits)

lemma notify_loop_posts:
  "\<exists>n. n \<le> maxRetries - i \<and> (i < maxRetries \<longrightarrow> 1 \<le> n)
     \<and> filter is_post (snd (notify_loop env u b maxRetries i delay)) = replicate n (HttpPost u b)"
proof (induction env u b maxRetries i delay rule: notify_loop.induct)
  case (1 env u b maxRetries i delay)
  show ?case
  proof (cases "i < maxRetries")
    case False
    then show ?thesis by (simp add: notify_loop_exhausted)
  next
    case lt: True
    show ?thesis
    proof (cases "delivered (axios_post env i u b)")
      case True
      then obtain st d where "axios_post env i u b = HttpResponse st d" "200 \<le> st" "st < 300"
        by (cases "axios_post env i u b") auto
      with lt have "notify_loop env u b maxRetries i delay = (Inr d, [HttpPost u b])"
        by (intro notify_loop_delivered) auto
      with lt show ?thesis
        by (intro exI [of _ 1]) simp
    next
      case False
      have "\<exists>n. n \<le> maxRetries - Suc i \<and> (Suc i < maxRetries \<longrightarrow> 1 \<le> n)
          \<and> filter is_post (snd (notify_loop env u b maxRetries (Suc i) (delay * 2)))
              = replicate n (HttpPost u b)"
      proof (cases "axios_post env i u b")
        case (HttpResponse st d)
        with False have "\<not> (200 \<le> st \<and> st < 300)" by simp
        with "1.IH"(1) [OF lt HttpResponse] show ?thesis by simp
      next
        case HttpError
        with "1.IH"(2) [OF lt] show ?thesis by simp
      qed
      then obtain n where n: "n \<le> maxRetries - Suc i"
        "filter is_post (snd (notify_loop env u b maxRetries (Suc i) (delay * 2)))
           = replicate n (HttpPost u b)"
        by blast
      have "notify_loop env u b maxRetries i delay =
          (fst (notify_loop env u b maxRetries (Suc i) (delay * 2)),
           HttpPost u b # Sleep delay # snd (notify_loop env u b maxRetries (Suc i) (delay * 2)))"
        by (rule notify_loop_failed_step [OF lt False]) simp_all
      with n lt show ?thesis
        by (intro exI [of _ "Suc n"]) simp
    qed
  qed
qed

lemma notify_posts:
  "\<exists>n. 1 \<le> n \<and> n \<le> 5
     \<and> filter is_post (snd (notifyEvaluationUrl env u b 5)) = replicate n (HttpPost u b)"
  using notify_loop_posts [of 5 0 env u b 1000] unfolding notifyEvaluationUrl_def by auto

lemma prepare_attachments_fail:
  assumes "tmp_dirSync env 0 = Some dir"
    and "fst (writeAttachments env (or_else atts (JArr [])) dir) = Inl err"
  shows "prepare env task brief atts =
           (Inl err, TmpDirSync 0 # snd (writeAttachments env (or_else atts (JArr [])) dir))"
  using assms unfolding prepare_def
  by (cases "writeAttachments env (or_else atts (JArr [])) dir")
     (simp add: bind_io_def call_opt_def)

lemma prepare_generate_fails:
  assumes "fst (generateFilesWithLLM env (or_else brief (JStr ''Auto app''))
                  (or_else atts (JArr []))) = Inl err"
  shows "\<exists>e. fst (prepare env task brief atts) = Inl e"
  using assms unfolding prepare_def
  by (auto simp: bind_io_def call_opt_def split: option.splits prod.splits sum.splits)

subsection \<open>The example request in the example environments\<close>

lemma demo_accepted: "DEFAULT_SECRET_var env = None \<Longrightarrow> accepted env req_demo"
  by (simp add: accepted_def required_fields_def req_simps or_else_def secret_simps)

lemma demo_short: "shortName (JStr ''My Task'') = Inr ''my-task''"
  by (simp add: shortName_def or_else_def toLowerCase_def replace_outside_def in_class_def
      lower_char_def)

lemma demo_prepare:
  assumes "OPENAI_API_KEY env = None" and "tmp_dirSync env 0 = Some ''/tmp/job''"
    and "fs_ensureDir env ''/tmp/job''"
  shows "prepare env (field req_demo ''task'') (field req_demo ''brief'')
           (field req_demo ''attachments'')
         = (Inr (mock_files ''todo app'', mock_readme ''todo app'',
                 derive_repoName env ''my-task''),
            [TmpDirSync 0, EnsureDir ''/tmp/job''])"
  using assms
  by (simp add: prepare_def req_simps or_else_def bind_io_def call_opt_def call_ok_def
      writeAttachments_def generateFilesWithLLM_def openai_def read_prop_def demo_short
      mock_files_def mock_readme_def)

lemma demo_prepare_empty:
  assumes "OPENAI_API_KEY env = Some ''sk-test''"
    and "openai_create env (llm_prompt env ''todo app'' (JArr [])) = Some empty_reply"
    and "JSON_parse env empty_reply
           = Some (JObj [(''files'', JArr []), (''readme'', JStr ''# Empty app'')])"
    and "tmp_dirSync env 0 = Some ''/tmp/job''" and "fs_ensureDir env ''/tmp/job''"
  shows "prepare env (field req_demo ''task'') (field req_demo ''brief'')
           (field req_demo ''attachments'')
         = (Inr (JArr [], JStr ''# Empty app'', derive_repoName env ''my-task''),
            [TmpDirSync 0, EnsureDir ''/tmp/job'',
             OpenAICreate (llm_prompt env ''todo app'' (JArr []))])"
  using assms
  by (simp add: prepare_def req_simps or_else_def bind_io_def call_opt_def call_ok_def
      writeAttachments_def generateFilesWithLLM_def openai_def read_prop_def demo_short)

text \<open>With no file to write, the publisher's result is that of its library calls.\<close>

lemma publish_no_files:
  assumes "octokit_create env name = Some repo" and "tmp_dirSync env 1 = Some dir"
    and "fs_ensureDir env dir" and "\<And>p c. fs_writeFile env p c"
  shows "fst (createGithubRepoAndPush env JNull name (JArr []) readme) =
     (if \<not> git_run env GitInit then Inl (Rejected ''git'')
      else if \<not> git_run env (GitAddConfig ''user.name'' (GIT_USER_NAME env)) then Inl (Rejected ''git'')
      else if \<not> git_run env (GitAddConfig ''user.email'' (GIT_USER_EMAIL env)) then Inl (Rejected ''git'')
      else if \<not> git_run env (GitAdd ''./*'') then Inl (Rejected ''git'')
      else if \<not> git_run env (GitCommit ''Initial auto-generated commit'') then Inl (Rejected ''git'')
      else if \<not> git_run env (GitAddRemote ''origin'' (clone_url repo)) then Inl (Rejected ''git'')
      else if \<not> git_run env (GitPush [''-u'', ''origin'', ''main'']) then Inl (Rejected ''git'')
      else case octokit_getCommit env (owner_login repo) (repo_name repo) of
             None \<Rightarrow> Inl (Rejected ''octokit'')
           | Some sha \<Rightarrow> Inr \<lparr>repo_url = html_url repo, commit_sha = sha\<rparr>)"
  using assms
  by (simp add: createGithubRepoAndPush_def git_def bind_io_def call_opt_def call_ok_def
      split: option.splits)

text \<open>With a file to write, the publisher stops at \<^verbatim>\<open>require\<close>.\<close>

lemma publish_mock_files:
  assumes "octokit_create env name = Some repo" and "tmp_dirSync env 1 = Some dir"
    and "fs_ensureDir env dir"
  shows "createGithubRepoAndPush env JNull name (mock_files b) readme =
           (Inl ReferenceError, [CreateRepo name, TmpDirSync 1, EnsureDir dir])"
  using assms
  by (simp add: createGithubRepoAndPush_def bind_io_def call_opt_def call_ok_def
      mock_files_def require_def)

subsection \<open>The Job Orchestrator\<close>

text \<open>
  Claim C6. In a job whose publisher fails, on the arguments the job hands to it, the
  trace is the acceptance, the preparation, what the publisher did up to its failure and
  the log of that failure; no callback is posted.
\<close>

theorem publish_failure_never_notifies:
  assumes "accepted env body"
    and "prepare env (field body ''task'') (field body ''brief'') (field body ''attachments'')
           = (Inr (files, readme, name), t1)"
    and "fst (createGithubRepoAndPush env JNull name files readme) = Inl err"
  shows "handler env body =
           Respond 200 (JObj [(''status'', JStr ''accepted'')]) # t1
             @ snd (createGithubRepoAndPush env JNull name files readme)
             @ [ConsoleError ''Processing failed:'' err]
       \<and> filter is_post (handler env body) = []"
proof -
  obtain t2 where c: "createGithubRepoAndPush env JNull name files readme = (Inl err, t2)"
    using assms(3) by (cases "createGithubRepoAndPush env JNull name files readme") simp
  have h: "handler env body =
           Respond 200 (JObj [(''status'', JStr ''accepted'')]) # t1 @ t2
             @ [ConsoleError ''Processing failed:'' err]"
    by (simp add: handler_accepted [OF assms(1)] pipeline_publish_fails [OF assms(2) c])
  have "filter is_post t1 = []"
    using prepare_no_post [of env "field body ''task''" "field body ''brief''"
        "field body ''attachments''"]
    by (simp add: assms(2))
  moreover have "filter is_post t2 = []"
    using publish_filter_post [of env JNull name files readme] by (simp add: c)
  ultimately show ?thesis using h c by simp
qed

theorem publish_failure_never_notifies_witness:
  "accepted env_repo_rejected req_demo
   \<and> prepare env_repo_rejected (field req_demo ''task'') (field req_demo ''brief'')
        (field req_demo ''attachments'')
      = (Inr (mock_files ''todo app'', mock_readme ''todo app'',
              derive_repoName env_repo_rejected ''my-task''),
         [TmpDirSync 0, EnsureDir ''/tmp/job''])
   \<and> fst (createGithubRepoAndPush env_repo_rejected JNull
             (derive_repoName env_repo_rejected ''my-task'')
             (mock_files ''todo app'') (mock_readme ''todo app'')) = Inl (Rejected ''octokit'')
   \<and> handler env_repo_rejected req_demo =
        [Respond 200 (JObj [(''status'', JStr ''accepted'')]), TmpDirSync 0,
         EnsureDir ''/tmp/job'', CreateRepo (derive_repoName env_repo_rejected ''my-task''),
         ConsoleError ''Processing failed:'' (Rejected ''octokit'')]
   \<and> filter is_post (handler env_repo_rejected req_demo) = []
   \<and> accepted env_ok req_demo
   \<and> prepare env_ok (field req_demo ''task'') (field req_demo ''brief'')
        (field req_demo ''attachments'')
      = (Inr (mock_files ''todo app'', mock_readme ''todo app'',
              derive_repoName env_ok ''my-task''),
         [TmpDirSync 0, EnsureDir ''/tmp/job''])
   \<and> fst (createGithubRepoAndPush env_ok JNull (derive_repoName env_ok ''my-task'')
             (mock_files ''todo app'') (mock_readme ''todo app'')) = Inl ReferenceError
   \<and> handler env_ok req_demo =
        [Respond 200 (JObj [(''status'', JStr ''accepted'')]), TmpDirSync 0,
         EnsureDir ''/tmp/job'', CreateRepo (derive_repoName env_ok ''my-task''),
         TmpDirSync 1, EnsureDir ''/tmp/repo'',
         ConsoleError ''Processing failed:'' ReferenceError]
   \<and> filter is_post (handler env_ok req_demo) = []
   \<and> accepted env_push_rejected req_demo
   \<and> prepare env_push_rejected (field req_demo ''task'') (field req_demo ''brief'')
        (field req_demo ''attachments'')
      = (Inr (JArr [], JStr ''# Empty app'', derive_repoName env_push_rejected ''my-task''),
         [TmpDirSync 0, EnsureDir ''/tmp/job'',
          OpenAICreate (llm_prompt env_push_rejected ''todo app'' (JArr []))])
   \<and> fst (createGithubRepoAndPush env_push_rejected JNull
             (derive_repoName env_push_rejected ''my-task'') (JArr []) (JStr ''# Empty app''))
       = Inl (Rejected ''git'')
   \<and> filter is_post (handler env_push_rejected req_demo) = []"
proof -
  have a1: "accepted env_repo_rejected req_demo"
    by (rule demo_accepted) (simp add: env_simps)
  have p1: "prepare env_repo_rejected (field req_demo ''task'') (field req_demo ''brief'')
        (field req_demo ''attachments'')
      = (Inr (mock_files ''todo app'', mock_readme ''todo app'',
              derive_repoName env_repo_rejected ''my-task''),
         [TmpDirSync 0, EnsureDir ''/tmp/job''])"
    by (rule demo_prepare) (simp_all add: env_simps)
  have c1: "createGithubRepoAndPush env_repo_rejected JNull
             (derive_repoName env_repo_rejected ''my-task'')
             (mock_files ''todo app'') (mock_readme ''todo app'')
           = (Inl (Rejected ''octokit''), [CreateRepo (derive_repoName env_repo_rejected ''my-task'')])"
    by (simp add: createGithubRepoAndPush_def bind_io_def call_opt_def env_simps)
  have c1': "fst (createGithubRepoAndPush env_repo_rejected JNull
             (derive_repoName env_repo_rejected ''my-task'')
             (mock_files ''todo app'') (mock_readme ''todo app'')) = Inl (Rejected ''octokit'')"
    by (simp add: c1)
  have a2: "accepted env_ok req_demo"
    by (rule demo_accepted) (simp add: env_simps)
  have p2: "prepare env_ok (field req_demo ''task'') (field req_demo ''brief'')
        (field req_demo ''attachments'')
      = (Inr (mock_files ''todo app'', mock_readme ''todo app'',
              derive_repoName env_ok ''my-task''),
         [TmpDirSync 0, EnsureDir ''/tmp/job''])"
    by (rule demo_prepare) (simp_all add: env_simps)
  have c2: "createGithubRepoAndPush env_ok JNull (derive_repoName env_ok ''my-task'')
             (mock_files ''todo app'') (mock_readme ''todo app'')
           = (Inl ReferenceError,
              [CreateRepo (derive_repoName env_ok ''my-task''), TmpDirSync 1,
               EnsureDir ''/tmp/repo''])"
    by (rule publish_mock_files) (simp_all add: env_simps)
  have c2': "fst (createGithubRepoAndPush env_ok JNull (derive_repoName env_ok ''my-task'')
             (mock_files ''todo app'') (mock_readme ''todo app'')) = Inl ReferenceError"
    by (simp add: c2)
  have a3: "accepted env_push_rejected req_demo"
    by (rule demo_accepted) (simp add: env_simps)
  have p3: "prepare env_push_rejected (field req_demo ''task'') (field req_demo ''brief'')
        (field req_demo ''attachments'')
      = (Inr (JArr [], JStr ''# Empty app'', derive_repoName env_push_rejected ''my-task''),
         [TmpDirSync 0, EnsureDir ''/tmp/job'',
          OpenAICreate (llm_prompt env_push_rejected ''todo app'' (JArr []))])"
    by (rule demo_prepare_empty) (simp_all add: env_simps)
  have c3: "fst (createGithubRepoAndPush env_push_rejected JNull
             (derive_repoName env_push_rejected ''my-task'') (JArr []) (JStr ''# Empty app''))
       = Inl (Rejected ''git'')"
    by (subst publish_no_files) (simp_all add: env_simps)
  note r1 = publish_failure_never_notifies [OF a1 p1 c1']
  note r2 = publish_failure_never_notifies [OF a2 p2 c2']
  note r3 = publish_failure_never_notifies [OF a3 p3 c3]
  have h1: "handler env_repo_rejected req_demo =
        [Respond 200 (JObj [(''status'', JStr ''accepted'')]), TmpDirSync 0,
         EnsureDir ''/tmp/job'', CreateRepo (derive_repoName env_repo_rejected ''my-task''),
         ConsoleError ''Processing failed:'' (Rejected ''octokit'')]"
    using r1 [THEN conjunct1] by (simp add: c1)
  have h2: "handler env_ok req_demo =
        [Respond 200 (JObj [(''status'', JStr ''accepted'')]), TmpDirSync 0,
         EnsureDir ''/tmp/job'', CreateRepo (derive_repoName env_ok ''my-task''),
         TmpDirSync 1, EnsureDir ''/tmp/repo'',
         ConsoleError ''Processing failed:'' ReferenceError]"
    using r2 [THEN conjunct1] by (simp add: c2)
  show ?thesis
    by (intro conjI a1 p1 c1' h1 r1 [THEN conjunct2] a2 p2 c2' h2 r2 [THEN conjunct2]
        a3 p3 c3 r3 [THEN conjunct2])
qed

text \<open>
  Claim C9. In a job that reaches notification, the posts of the trace are between one
  and five copies of one and the same event: the request's callback URL with the payload
  built from the request's \<^verbatim>\<open>email\<close>, \<^verbatim>\<open>task\<close>, \<^verbatim>\<open>round\<close> and \<^verbatim>\<open>nonce\<close>, the
  publisher's \<^verbatim>\<open>repo_url\<close> and \<^verbatim>\<open>commit_sha\<close> as returned, and \<^verbatim>\<open>deploy_url\<close> null.
\<close>

theorem payload_fixed_across_attempts:
  assumes "accepted env body"
    and "prepare env (field body ''task'') (field body ''brief'') (field body ''attachments'')
           = (Inr (files, readme, name), t1)"
    and "fst (createGithubRepoAndPush env JNull name files readme) = Inr result"
  shows "\<exists>n. 1 \<le> n \<and> n \<le> 5 \<and>
           filter is_post (handler env body) =
             replicate n
               (HttpPost (field body ''evaluation_url'')
                  (JObj [(''email'', field body ''email''), (''task'', field body ''task''),
                         (''round'', field body ''round''), (''nonce'', field body ''nonce''),
                         (''repo_url'', repo_url result), (''commit_sha'', commit_sha result),
                         (''deploy_url'', JNull)]))"
proof -
  let ?b = "notifyBody (field body ''email'') (field body ''task'') (field body ''round'')
              (field body ''nonce'') result"
  let ?u = "field body ''evaluation_url''"
  obtain t2 where c: "createGithubRepoAndPush env JNull name files readme = (Inr result, t2)"
    using assms(3) by (cases "createGithubRepoAndPush env JNull name files readme") simp
  obtain r t3 where N: "notifyEvaluationUrl env ?u ?b 5 = (r, t3)"
    by (cases "notifyEvaluationUrl env ?u ?b 5")
  obtain n where n: "1 \<le> n" "n \<le> 5" "filter is_post t3 = replicate n (HttpPost ?u ?b)"
    using notify_posts [of env ?u ?b] N by auto
  have p1: "filter is_post t1 = []"
    using prepare_no_post [of env "field body ''task''" "field body ''brief''"
        "field body ''attachments''"]
    by (simp add: assms(2))
  have p2: "filter is_post t2 = []"
    using publish_filter_post [of env JNull name files readme] by (simp add: c)
  have "filter is_post (handler env body) = replicate n (HttpPost ?u ?b)"
    using N n(3) p1 p2
    by (cases r) (simp_all add: handler_accepted [OF assms(1)] pipeline_published [OF assms(2) c])
  with n(1,2) show ?thesis
    unfolding notifyBody_def by blast
qed

lemma callback_down_never_delivered: "\<forall>i<5. \<not> delivered (axios_post env_callback_down i u b)"
  by (simp add: env_simps)

theorem payload_fixed_across_attempts_witness:
  "accepted env_callback_down req_demo
   \<and> prepare env_callback_down (field req_demo ''task'') (field req_demo ''brief'')
        (field req_demo ''attachments'')
      = (Inr (JArr [], JStr ''# Empty app'', derive_repoName env_callback_down ''my-task''),
         [TmpDirSync 0, EnsureDir ''/tmp/job'',
          OpenAICreate (llm_prompt env_callback_down ''todo app'' (JArr []))])
   \<and> fst (createGithubRepoAndPush env_callback_down JNull
             (derive_repoName env_callback_down ''my-task'') (JArr []) (JStr ''# Empty app''))
       = Inr \<lparr>repo_url = JStr ''https://github.com/octo/r'', commit_sha = JStr ''c0ffee''\<rparr>
   \<and> filter is_post (handler env_callback_down req_demo) =
         replicate 5
           (HttpPost (JStr ''http://test/cb'')
              (JObj [(''email'', JStr ''student@example.com''), (''task'', JStr ''My Task''),
                     (''round'', JNum 1), (''nonce'', JStr ''n1''),
                     (''repo_url'', JStr ''https://github.com/octo/r''),
                     (''commit_sha'', JStr ''c0ffee''), (''deploy_url'', JNull)]))"
proof -
  let ?name = "derive_repoName env_callback_down ''my-task''"
  let ?res = "\<lparr>repo_url = JStr ''https://github.com/octo/r'', commit_sha = JStr ''c0ffee''\<rparr>"
  let ?post = "HttpPost (JStr ''http://test/cb'')
              (JObj [(''email'', JStr ''student@example.com''), (''task'', JStr ''My Task''),
                     (''round'', JNum 1), (''nonce'', JStr ''n1''),
                     (''repo_url'', JStr ''https://github.com/octo/r''),
                     (''commit_sha'', JStr ''c0ffee''), (''deploy_url'', JNull)])"
  have a: "accepted env_callback_down req_demo"
    by (rule demo_accepted) (simp add: env_simps)
  have p: "prepare env_callback_down (field req_demo ''task'') (field req_demo ''brief'')
        (field req_demo ''attachments'')
      = (Inr (JArr [], JStr ''# Empty app'', ?name),
         [TmpDirSync 0, EnsureDir ''/tmp/job'',
          OpenAICreate (llm_prompt env_callback_down ''todo app'' (JArr []))])"
    by (rule demo_prepare_empty) (simp_all add: env_simps)
  have oc: "octokit_create env_callback_down ?name =
      Some \<lparr>repo_name = JStr ?name, owner_login = JStr ''octo'',
            clone_url = JStr ''https://github.com/octo/r.git'',
            html_url = JStr ''https://github.com/octo/r''\<rparr>"
    by (simp add: env_simps)
  have c: "fst (createGithubRepoAndPush env_callback_down JNull ?name (JArr []) (JStr ''# Empty app''))
       = Inr ?res"
    using publish_no_files [OF oc, of "''/tmp/repo''" "JStr ''# Empty app''"]
    by (simp add: env_simps)
  obtain t2 where c': "createGithubRepoAndPush env_callback_down JNull ?name (JArr [])
       (JStr ''# Empty app'') = (Inr ?res, t2)"
    using c by (cases "createGithubRepoAndPush env_callback_down JNull ?name (JArr [])
       (JStr ''# Empty app'')") simp
  have t2: "filter is_post t2 = []"
    using publish_filter_post [of env_callback_down JNull ?name "JArr []" "JStr ''# Empty app''"]
    by (simp add: c')
  have five: "length (filter is_post (handler env_callback_down req_demo)) = 5"
    by (simp add: handler_accepted [OF a] pipeline_published [OF p c']
        notify_all_fail_trace [OF callback_down_never_delivered] t2)
  from payload_fixed_across_attempts [OF a p c]
  obtain n where n: "filter is_post (handler env_callback_down req_demo) =
      replicate n (HttpPost (field req_demo ''evaluation_url'')
                  (JObj [(''email'', field req_demo ''email''), (''task'', field req_demo ''task''),
                         (''round'', field req_demo ''round''), (''nonce'', field req_demo ''nonce''),
                         (''repo_url'', repo_url ?res), (''commit_sha'', commit_sha ?res),
                         (''deploy_url'', JNull)]))"
    by blast
  with five have "n = 5" by simp
  with n have r: "filter is_post (handler env_callback_down req_demo) = replicate 5 ?post"
    by (simp add: req_simps or_else_def)
  show ?thesis
    by (intro conjI a p c r)
qed

text \<open>
  Claim C3, as stated, fails: when the data-URI parser rejects the attachment of an
  accepted request, the job ends with the logged failure; the backend is not called, no
  repository is created and no callback is posted.
\<close>

theorem attachment_failure_counterexample:
  "accepted env_bad_datauri req_attachment
   \<and> fst (writeAttachments env_bad_datauri
            (or_else (field req_attachment ''attachments'') (JArr [])) ''/tmp/job'')
       = Inl (Rejected ''datauri'')
   \<and> handler env_bad_datauri req_attachment =
        [Respond 200 (JObj [(''status'', JStr ''accepted'')]), TmpDirSync 0,
         EnsureDir ''/tmp/job'', DataUriParse (JStr ''data:image/png;base64,AAAA''),
         ConsoleError ''Processing failed:'' (Rejected ''datauri'')]
   \<and> filter (\<lambda>e. is_generate e \<or> is_create_repo e \<or> is_post e)
        (handler env_bad_datauri req_attachment) = []"
  by (simp add: accepted_def required_fields_def handler_def pipeline_def prepare_def
      writeAttachments_def bind_io_def call_opt_def call_ok_def req_simps or_else_def
      secret_simps env_simps)

text \<open>
  Claim C3, amended. For every accepted request, a failure of attachment materialization
  is terminal: the trace is the acceptance, the temporary directory, what the materializer
  did up to its failure and the log of that failure, with no backend call, no repository
  creation and no callback.
\<close>

theorem attachment_failure_ends_job:
  assumes "accepted env body"
    and "tmp_dirSync env 0 = Some dir"
    and "fst (writeAttachments env (or_else (field body ''attachments'') (JArr [])) dir) = Inl err"
  shows "handler env body =
           Respond 200 (JObj [(''status'', JStr ''accepted'')]) # TmpDirSync 0 #
           snd (writeAttachments env (or_else (field body ''attachments'') (JArr [])) dir)
             @ [ConsoleError ''Processing failed:'' err]
       \<and> filter (\<lambda>e. is_generate e \<or> is_create_repo e \<or> is_post e) (handler env body) = []"
proof -
  let ?w = "writeAttachments env (or_else (field body ''attachments'') (JArr [])) dir"
  note p = prepare_attachments_fail [OF assms(2,3)]
  have h: "handler env body =
           Respond 200 (JObj [(''status'', JStr ''accepted'')]) # TmpDirSync 0 # snd ?w
             @ [ConsoleError ''Processing failed:'' err]"
    by (simp add: handler_accepted [OF assms(1)] pipeline_prepare_fails p)
  have "list_all (\<lambda>e. \<not> (is_generate e \<or> is_create_repo e \<or> is_post e)) (snd ?w)"
    by (rule list_all_weaken [OF writeAttachments_local]) (case_tac x; simp)
  then have "filter (\<lambda>e. is_generate e \<or> is_create_repo e \<or> is_post e) (snd ?w) = []"
    by (rule filter_none)
  with h show ?thesis by simp
qed

theorem attachment_failure_ends_job_witness:
  "accepted env_bad_datauri req_attachment
   \<and> tmp_dirSync env_bad_datauri 0 = Some ''/tmp/job''
   \<and> fst (writeAttachments env_bad_datauri
            (or_else (field req_attachment ''attachments'') (JArr [])) ''/tmp/job'')
       = Inl (Rejected ''datauri'')
   \<and> filter (\<lambda>e. is_generate e \<or> is_create_repo e \<or> is_post e)
        (handler env_bad_datauri req_attachment) = []"
proof -
  have a: "accepted env_bad_datauri req_attachment"
    by (simp add: accepted_def required_fields_def req_simps or_else_def secret_simps env_simps)
  have t: "tmp_dirSync env_bad_datauri 0 = Some ''/tmp/job''"
    by (simp add: env_simps)
  have w: "fst (writeAttachments env_bad_datauri
            (or_else (field req_attachment ''attachments'') (JArr [])) ''/tmp/job'')
       = Inl (Rejected ''datauri'')"
    by (simp add: writeAttachments_def bind_io_def call_opt_def call_ok_def req_simps
        or_else_def env_simps)
  show ?thesis
    by (intro conjI a t w attachment_failure_ends_job [OF a t w, THEN conjunct2])
qed

subsection \<open>The Artifact Generator\<close>

text \<open>
  Claim C2, as stated, fails: with a backend configured whose call rejects, the generator
  throws, and the accepted job ends with the logged failure, without repository creation
  and without callback.
\<close>

theorem generator_backend_failure_counterexample:
  "openai env_backend_down
   \<and> fst (generateFilesWithLLM env_backend_down (JStr ''todo app'') (JArr []))
       = Inl (Rejected ''openai'')
   \<and> accepted env_backend_down req_demo
   \<and> filter (\<lambda>e. is_create_repo e \<or> is_post e) (handler env_backend_down req_demo) = []
   \<and> last (handler env_backend_down req_demo)
       = ConsoleError ''Processing failed:'' (Rejected ''openai'')"
  by (simp add: accepted_def required_fields_def handler_def pipeline_def prepare_def
      writeAttachments_def generateFilesWithLLM_def openai_def bind_io_def call_opt_def
      call_ok_def req_simps or_else_def secret_simps env_simps)

text \<open>
  Claim C2, amended. For a brief that is a string, or converts to one, the generator
  returns without throwing when no backend is configured (the no-backend artifact set)
  and when the backend call returns text (the parsed value, or the parse-failure artifact
  set when the text is not JSON). It throws when the backend call itself fails, and when
  the brief has no string form. In an accepted job whose generator throws, the
  orchestrator logs the failure and neither creates a repository nor posts a callback.
\<close>

theorem generator_returns_or_throws:
  "(to_str env brief = Inr b \<longrightarrow> \<not> openai env \<longrightarrow>
      generateFilesWithLLM env brief atts =
        (Inr (JObj [(''files'', mock_files b), (''readme'', mock_readme b)]), []))
   \<and> (to_str env brief = Inr b \<longrightarrow> openai env \<longrightarrow>
        openai_create env (llm_prompt env b atts) = Some text \<longrightarrow>
        generateFilesWithLLM env brief atts =
          (Inr (case JSON_parse env text of Some parsed \<Rightarrow> parsed | None \<Rightarrow> parse_failed_artifacts),
           [OpenAICreate (llm_prompt env b atts)]))
   \<and> (to_str env brief = Inr b \<longrightarrow> openai env \<longrightarrow>
        openai_create env (llm_prompt env b atts) = None \<longrightarrow>
        generateFilesWithLLM env brief atts =
          (Inl (Rejected ''openai''), [OpenAICreate (llm_prompt env b atts)]))
   \<and> (to_str env brief = Inl err \<longrightarrow> generateFilesWithLLM env brief atts = (Inl err, []))
   \<and> to_str env (JStr s) = Inr s
   \<and> (accepted env body \<longrightarrow>
        isl (fst (generateFilesWithLLM env (or_else (field body ''brief'') (JStr ''Auto app''))
                    (or_else (field body ''attachments'') (JArr [])))) \<longrightarrow>
        filter (\<lambda>e. is_create_repo e \<or> is_post e) (handler env body) = []
        \<and> (\<exists>e. last (handler env body) = ConsoleError ''Processing failed:'' e))"
proof (intro conjI impI)
  assume a: "accepted env body"
    and g: "isl (fst (generateFilesWithLLM env (or_else (field body ''brief'') (JStr ''Auto app''))
                    (or_else (field body ''attachments'') (JArr []))))"
  from g obtain err where
    "fst (generateFilesWithLLM env (or_else (field body ''brief'') (JStr ''Auto app''))
            (or_else (field body ''attachments'') (JArr []))) = Inl err"
    by (auto simp: isl_def)
  from prepare_generate_fails [OF this]
  obtain e where e: "fst (prepare env (field body ''task'') (field body ''brief'')
                            (field body ''attachments'')) = Inl e"
    by blast
  let ?t = "snd (prepare env (field body ''task'') (field body ''brief'') (field body ''attachments''))"
  have h: "handler env body = Respond 200 (JObj [(''status'', JStr ''accepted'')]) # ?t
             @ [ConsoleError ''Processing failed:'' e]"
    by (simp add: handler_accepted [OF a] pipeline_prepare_fails [OF e])
  have "list_all (\<lambda>e. \<not> (is_create_repo e \<or> is_post e)) ?t"
    by (rule list_all_weaken [OF prepare_before_publish]) (simp add: before_publish_def)
  then have "filter (\<lambda>e. is_create_repo e \<or> is_post e) ?t = []"
    by (rule filter_none)
  with h show "filter (\<lambda>e. is_create_repo e \<or> is_post e) (handler env body) = []" by simp
  from h show "\<exists>e. last (handler env body) = ConsoleError ''Processing failed:'' e" by simp
qed (simp_all add: generateFilesWithLLM_def bind_io_def call_opt_def split: option.splits)

theorem generator_returns_or_throws_witness:
  "to_str env_ok (JStr ''todo app'') = Inr ''todo app''
   \<and> \<not> openai env_ok
   \<and> generateFilesWithLLM env_ok (JStr ''todo app'') (JArr []) =
       (Inr (JObj [(''files'', mock_files ''todo app''),
                   (''readme'', mock_readme ''todo app'')]), [])
   \<and> openai env_backend_garbage
   \<and> openai_create env_backend_garbage (llm_prompt env_backend_garbage ''todo app'' (JArr []))
       = Some ''Sure! Here is your app''
   \<and> JSON_parse env_backend_garbage ''Sure! Here is your app'' = None
   \<and> generateFilesWithLLM env_backend_garbage (JStr ''todo app'') (JArr []) =
       (Inr parse_failed_artifacts,
        [OpenAICreate (llm_prompt env_backend_garbage ''todo app'' (JArr []))])
   \<and> openai env_backend_down
   \<and> openai_create env_backend_down (llm_prompt env_backend_down ''todo app'' (JArr []))
       = None
   \<and> generateFilesWithLLM env_backend_down (JStr ''todo app'') (JArr []) =
       (Inl (Rejected ''openai''),
        [OpenAICreate (llm_prompt env_backend_down ''todo app'' (JArr []))])
   \<and> to_str env_ok (JObj [(''toString'', JNum 1)]) = Inl TypeError
   \<and> generateFilesWithLLM env_ok (JObj [(''toString'', JNum 1)]) (JArr []) = (Inl TypeError, [])
   \<and> accepted env_backend_down req_demo
   \<and> isl (fst (generateFilesWithLLM env_backend_down
                 (or_else (field req_demo ''brief'') (JStr ''Auto app''))
                 (or_else (field req_demo ''attachments'') (JArr []))))
   \<and> filter (\<lambda>e. is_create_repo e \<or> is_post e) (handler env_backend_down req_demo) = []"
proof -
  have s1: "to_str env_ok (JStr ''todo app'') = Inr ''todo app''" by simp
  have s2: "to_str env_backend_garbage (JStr ''todo app'') = Inr ''todo app''" by simp
  have s3: "to_str env_backend_down (JStr ''todo app'') = Inr ''todo app''" by simp
  have s4: "to_str env_ok (JObj [(''toString'', JNum 1)]) = Inl TypeError" by simp
  have o1: "\<not> openai env_ok" by (simp add: openai_def env_simps)
  have o2: "openai env_backend_garbage" by (simp add: openai_def env_simps)
  have o3: "openai env_backend_down" by (simp add: openai_def env_simps)
  have c2: "openai_create env_backend_garbage
              (llm_prompt env_backend_garbage ''todo app'' (JArr []))
            = Some ''Sure! Here is your app''"
    by (simp add: env_simps)
  have j2: "JSON_parse env_backend_garbage ''Sure! Here is your app'' = None"
    by (simp add: env_simps)
  have c3: "openai_create env_backend_down
              (llm_prompt env_backend_down ''todo app'' (JArr [])) = None"
    by (simp add: env_simps)
  have a: "accepted env_backend_down req_demo"
    by (rule demo_accepted) (simp add: env_simps)
  have g: "isl (fst (generateFilesWithLLM env_backend_down
                 (or_else (field req_demo ''brief'') (JStr ''Auto app''))
                 (or_else (field req_demo ''attachments'') (JArr []))))"
    using o3 by (simp add: generateFilesWithLLM_def bind_io_def call_opt_def env_simps req_simps
        or_else_def)
  note t1 = generator_returns_or_throws
      [of env_ok "JStr ''todo app''" "''todo app''" "JArr []",
        THEN conjunct1, rule_format, OF s1 o1]
  note t2 = generator_returns_or_throws
      [of env_backend_garbage "JStr ''todo app''" "''todo app''" "JArr []"
          "''Sure! Here is your app''",
        THEN conjunct2, THEN conjunct1, rule_format, OF s2 o2 c2]
  note t3 = generator_returns_or_throws
      [of env_backend_down "JStr ''todo app''" "''todo app''" "JArr []",
        THEN conjunct2, THEN conjunct2, THEN conjunct1, rule_format, OF s3 o3 c3]
  note t4 = generator_returns_or_throws
      [of env_ok "JObj [(''toString'', JNum 1)]" _ "JArr []" _ TypeError,
        THEN conjunct2, THEN conjunct2, THEN conjunct2, THEN conjunct1, rule_format, OF s4]
  note t5 = generator_returns_or_throws
      [of env_backend_down _ _ _ _ _ _ req_demo,
        THEN conjunct2, THEN conjunct2, THEN conjunct2, THEN conjunct2, THEN conjunct2,
        rule_format, OF a g, THEN conjunct1]
  have t2': "generateFilesWithLLM env_backend_garbage (JStr ''todo app'') (JArr []) =
       (Inr parse_failed_artifacts,
        [OpenAICreate (llm_prompt env_backend_garbage ''todo app'' (JArr []))])"
    using t2 by (simp add: j2)
  show ?thesis
    by (intro conjI s1 o1 t1 o2 c2 j2 t2' o3 c3 t3 s4 t4 a g t5)
qed

text \<open>
  Claim C8. Without a backend the generator returns, for a brief that is a string (or
  converts to one), one file, \<^verbatim>\<open>index.html\<close>, and a readme that ends with the brief's text.
  With a backend whose reply is not JSON it returns the parse-failure artifact set, whose
  readme differs from the no-backend readme of every brief.
\<close>

theorem generator_fallbacks_distinguishable:
  "(\<not> openai env \<longrightarrow>
      (\<exists>content.
         generateFilesWithLLM env (JStr s) atts =
           (Inr (JObj [(''files'', JArr [JObj [(''path'', JStr ''index.html''),
                                                (''content'', JStr content)]]),
                       (''readme'', JStr (''# Auto-generated app\<newline>\<newline>Brief: '' @ s))]), [])))
   \<and> (\<not> openai env \<longrightarrow> to_str env brief = Inr b \<longrightarrow>
      (\<exists>content.
         generateFilesWithLLM env brief atts =
           (Inr (JObj [(''files'', JArr [JObj [(''path'', JStr ''index.html''),
                                                (''content'', JStr content)]]),
                       (''readme'', JStr (''# Auto-generated app\<newline>\<newline>Brief: '' @ b))]), [])))
   \<and> (openai env \<longrightarrow> openai_create env (llm_prompt env s atts) = Some text \<longrightarrow>
        JSON_parse env text = None \<longrightarrow>
        fst (generateFilesWithLLM env (JStr s) atts) = Inr parse_failed_artifacts
        \<and> get_prop parse_failed_artifacts ''readme''
            = JStr ''# Auto app\<newline>\<newline>(LLM output parse failed)''
        \<and> get_prop parse_failed_artifacts ''readme'' \<noteq> mock_readme b')"
  by (simp add: generateFilesWithLLM_def mock_files_def mock_readme_def
      parse_failed_artifacts_def bind_io_def call_opt_def)

theorem generator_fallbacks_distinguishable_witness:
  "\<not> openai env_ok
   \<and> (\<exists>content.
         generateFilesWithLLM env_ok (JStr ''todo app'') (JArr []) =
           (Inr (JObj [(''files'', JArr [JObj [(''path'', JStr ''index.html''),
                                                (''content'', JStr content)]]),
                       (''readme'', JStr ''# Auto-generated app\<newline>\<newline>Brief: todo app'')]), []))
   \<and> openai env_backend_garbage
   \<and> openai_create env_backend_garbage (llm_prompt env_backend_garbage ''todo app'' (JArr []))
       = Some ''Sure! Here is your app''
   \<and> JSON_parse env_backend_garbage ''Sure! Here is your app'' = None
   \<and> fst (generateFilesWithLLM env_backend_garbage (JStr ''todo app'') (JArr []))
       = Inr parse_failed_artifacts
   \<and> get_prop parse_failed_artifacts ''readme'' \<noteq> mock_readme ''todo app''"
proof -
  have o1: "\<not> openai env_ok" by (simp add: openai_def env_simps)
  have o2: "openai env_backend_garbage" by (simp add: openai_def env_simps)
  have c2: "openai_create env_backend_garbage
              (llm_prompt env_backend_garbage ''todo app'' (JArr []))
            = Some ''Sure! Here is your app''"
    by (simp add: env_simps)
  have j2: "JSON_parse env_backend_garbage ''Sure! Here is your app'' = None"
    by (simp add: env_simps)
  note t1 = generator_fallbacks_distinguishable
      [of env_ok "''todo app''" "JArr []", THEN conjunct1, rule_format, OF o1]
  note t2 = generator_fallbacks_distinguishable
      [of env_backend_garbage "''todo app''" "JArr []" _ _ "''Sure! Here is your app''"
          "''todo app''",
        THEN conjunct2, THEN conjunct2, rule_format, OF o2 c2 j2]
  have t1': "\<exists>content.
         generateFilesWithLLM env_ok (JStr ''todo app'') (JArr []) =
           (Inr (JObj [(''files'', JArr [JObj [(''path'', JStr ''index.html''),
                                                (''content'', JStr content)]]),
                       (''readme'', JStr ''# Auto-generated app\<newline>\<newline>Brief: todo app'')]), [])"
    using t1 by simp
  show ?thesis
    by (intro conjI o1 t1' o2 c2 j2 t2 [THEN conjunct1] t2 [THEN conjunct2, THEN conjunct2])
qed

subsection \<open>The repository name\<close>

lemma slug_char_eq: "lower_char (if in_class c then c else CHR ''-'') = spec_slug_char c"
proof (cases "in_class c")
  case True
  then show ?thesis
    unfolding in_class_def lower_char_def spec_slug_char_def slug_chars_def
    by auto
next
  case False
  then show ?thesis
    unfolding in_class_def lower_char_def spec_slug_char_def slug_chars_def
    by (auto split: option.splits dest!: map_of_SomeD set_zip_leftD)
qed

lemma spec_slug_char_in: "spec_slug_char c \<in> set slug_chars"
proof (cases "c \<in> set slug_chars")
  case True
  then show ?thesis by (simp add: spec_slug_char_def)
next
  case False
  show ?thesis
  proof (cases "map_of (zip ''ABCDEFGHIJKLMNOPQRSTUVWXYZ'' ''abcdefghijklmnopqrstuvwxyz'') c")
    case None
    with False show ?thesis by (simp add: spec_slug_char_def slug_chars_def)
  next
    case (Some l)
    then have "l \<in> set ''abcdefghijklmnopqrstuvwxyz''"
      by (meson map_of_SomeD set_zip_rightD)
    then have "l \<in> set slug_chars" unfolding slug_chars_def by auto
    with False Some show ?thesis by (simp add: spec_slug_char_def)
  qed
qed

lemma spec_slug_chars: "set (spec_slug t) \<subseteq> set slug_chars"
proof
  fix c assume "c \<in> set (spec_slug t)"
  then have "c \<in> set (map spec_slug_char t)"
    unfolding spec_slug_def by (rule in_set_takeD)
  then show "c \<in> set slug_chars"
    using spec_slug_char_in by auto
qed

lemma shortName_string: "t \<noteq> [] \<Longrightarrow> shortName (JStr t) = Inr (spec_slug t)"
  by (simp add: shortName_def or_else_def toLowerCase_def replace_outside_def spec_slug_def
      slug_char_eq comp_def)

lemma digit36_in: "d < 36 \<Longrightarrow> digit36 d \<in> set ''0123456789abcdefghijklmnopqrstuvwxyz''"
  unfolding digit36_def by (rule nth_mem) simp

lemma to_base36_digits: "set (to_base36 n) \<subseteq> set ''0123456789abcdefghijklmnopqrstuvwxyz''"
proof (induction n rule: to_base36.induct)
  case (1 n)
  show ?case
  proof (cases "n < 36")
    case True
    then show ?thesis
      using digit36_in [of n] by (subst to_base36.simps) simp
  next
    case False
    have "n mod 36 < 36" by simp
    from digit36_in [OF this] "1.IH" [OF False] False show ?thesis
      by (subst to_base36.simps) simp
  qed
qed

lemma to_base36_length: "36 ^ k \<le> n \<Longrightarrow> k < length (to_base36 n)"
proof (induction k arbitrary: n)
  case 0
  show ?case by (subst to_base36.simps) simp
next
  case (Suc k)
  from Suc.prems have "36 ^ k \<le> n div 36"
    by (simp add: less_eq_div_iff_mult_less_eq mult.commute)
  from Suc.IH [OF this] have "k < length (to_base36 (n div 36))" .
  moreover have "\<not> n < 36"
  proof -
    have "(1::nat) \<le> 36 ^ k" by simp
    then have "(36::nat) * 1 \<le> 36 * 36 ^ k" by (rule mult_le_mono2)
    then have "(36::nat) \<le> 36 * 36 ^ k" by (simp only: mult_1_right)
    also have "\<dots> \<le> n" using Suc.prems by simp
    finally show ?thesis by simp
  qed
  ultimately show ?case by (subst to_base36.simps) simp
qed

lemma base36_digits_slug: "set ''0123456789abcdefghijklmnopqrstuvwxyz'' \<subseteq> set slug_chars"
  unfolding slug_chars_def by simp

lemma toString36_chars: "set (toString36 n) \<subseteq> set slug_chars"
proof (cases "n < 0")
  case True
  have "set (to_base36 (nat (- n))) \<subseteq> set slug_chars"
    by (rule subset_trans [OF to_base36_digits base36_digits_slug])
  moreover have "CHR ''-'' \<in> set slug_chars"
    unfolding slug_chars_def by simp
  ultimately show ?thesis
    using True by (simp add: toString36_def)
next
  case False
  have "set (to_base36 (nat n)) \<subseteq> set slug_chars"
    by (rule subset_trans [OF to_base36_digits base36_digits_slug])
  then show ?thesis
    using False by (simp add: toString36_def)
qed

lemma slice_last_subset: "set (slice_last k s) \<subseteq> set s"
  unfolding slice_last_def by (rule set_drop_subset)

lemma slice_last_length: "6 \<le> length s \<Longrightarrow> length (slice_last 6 s) = 6"
  by (simp add: slice_last_def)

lemma fragment_six:
  assumes "36 ^ 5 \<le> now"
  shows "length (slice_last 6 (toString36 now)) = 6"
    and "set (slice_last 6 (toString36 now)) \<subseteq> set ''0123456789abcdefghijklmnopqrstuvwxyz''"
proof -
  from assms have pos: "\<not> now < 0" by simp
  from assms have "36 ^ 5 \<le> nat now" by simp
  then have "5 < length (to_base36 (nat now))" by (rule to_base36_length)
  then show "length (slice_last 6 (toString36 now)) = 6"
    using pos by (simp add: toString36_def slice_last_length)
  show "set (slice_last 6 (toString36 now)) \<subseteq> set ''0123456789abcdefghijklmnopqrstuvwxyz''"
    using pos slice_last_subset [of 6 "to_base36 (nat now)"] to_base36_digits [of "nat now"]
    by (auto simp: toString36_def)
qed

lemma repoName_chars:
  "set short \<subseteq> set slug_chars \<Longrightarrow> set (derive_repoName env short) \<subseteq> set slug_chars"
proof -
  assume s: "set short \<subseteq> set slug_chars"
  have f: "set (slice_last 6 (toString36 (date_now env))) \<subseteq> set slug_chars"
    by (rule subset_trans [OF slice_last_subset toString36_chars])
  have h: "CHR ''-'' \<in> set slug_chars"
    unfolding slug_chars_def by simp
  show ?thesis
    using s f h by (simp add: derive_repoName_def)
qed

lemma prepare_repoName:
  assumes "prepare env task brief atts = (Inr (files, readme, name), tr)"
  shows "\<exists>short. shortName task = Inr short \<and> name = derive_repoName env short"
  using assms unfolding prepare_def bind_io_def
  by (auto split: prod.splits sum.splits)

text \<open>
  Claim C7. For a task name \<open>t\<close> (a non-empty string, as the endpoint requires), the short
  name is \<open>t\<close> with every character outside \<^verbatim>\<open>[a-z0-9-]\<close> replaced, capital letters by
  their small letters and all others by a hyphen, cut to 40 characters; the repository
  name a job derives is that slug, a hyphen and the last six characters of the clock in
  base 36; it has only characters of \<^verbatim>\<open>[a-z0-9-]\<close>; the fragment has six characters, all
  of them base-36 digits, for every clock value from \<open>36 ^ 5\<close> milliseconds on (any moment
  since 1 January 1970, 16:48 UTC); and \<^verbatim>\<open>"Hello, World! 2024"\<close> gives the slug
  \<^verbatim>\<open>"hello--world--2024"\<close>.
\<close>

theorem repo_name_derivation:
  assumes "t \<noteq> []"
  shows "shortName (JStr t) = Inr (spec_slug t)
       \<and> length (spec_slug t) \<le> 40
       \<and> (prepare env (JStr t) brief atts = (Inr (files, readme, name), tr) \<longrightarrow>
            name = spec_slug t @ ''-'' @ slice_last 6 (toString36 (date_now env)))
       \<and> set (spec_slug t @ ''-'' @ slice_last 6 (toString36 (date_now env))) \<subseteq> set slug_chars
       \<and> (36 ^ 5 \<le> date_now env \<longrightarrow>
            length (slice_last 6 (toString36 (date_now env))) = 6
            \<and> set (slice_last 6 (toString36 (date_now env)))
                \<subseteq> set ''0123456789abcdefghijklmnopqrstuvwxyz'')
       \<and> shortName (JStr ''Hello, World! 2024'') = Inr ''hello--world--2024''"
proof (intro conjI impI)
  show s: "shortName (JStr t) = Inr (spec_slug t)"
    by (rule shortName_string [OF assms])
  show "length (spec_slug t) \<le> 40"
    by (simp add: spec_slug_def)
  show "name = spec_slug t @ ''-'' @ slice_last 6 (toString36 (date_now env))"
    if "prepare env (JStr t) brief atts = (Inr (files, readme, name), tr)"
    using prepare_repoName [OF that] s by (auto simp: derive_repoName_def)
  show "set (spec_slug t @ ''-'' @ slice_last 6 (toString36 (date_now env))) \<subseteq> set slug_chars"
    using repoName_chars [OF spec_slug_chars, of env t] by (simp add: derive_repoName_def)
  show "length (slice_last 6 (toString36 (date_now env))) = 6"
    if "36 ^ 5 \<le> date_now env"
    by (rule fragment_six(1) [OF that])
  show "set (slice_last 6 (toString36 (date_now env)))
          \<subseteq> set ''0123456789abcdefghijklmnopqrstuvwxyz''"
    if "36 ^ 5 \<le> date_now env"
    by (rule fragment_six(2) [OF that])
  show "shortName (JStr ''Hello, World! 2024'') = Inr ''hello--world--2024''"
    by (simp add: shortName_def or_else_def toLowerCase_def replace_outside_def in_class_def
        lower_char_def)
qed

theorem repo_name_derivation_witness:
  "''My Task'' \<noteq> []
   \<and> shortName (JStr ''My Task'') = Inr ''my-task''
   \<and> prepare env_ok (JStr ''My Task'') (field req_demo ''brief'') (field req_demo ''attachments'')
       = (Inr (mock_files ''todo app'', mock_readme ''todo app'',
               ''my-task-yw3v28''),
          [TmpDirSync 0, EnsureDir ''/tmp/job''])
   \<and> 36 ^ 5 \<le> date_now env_ok
   \<and> slice_last 6 (toString36 (date_now env_ok)) = ''yw3v28''
   \<and> length (slice_last 6 (toString36 (date_now env_ok))) = 6"
proof -
  have n: "''My Task'' \<noteq> []" by simp
  have sl: "spec_slug ''My Task'' = ''my-task''"
    by (simp add: spec_slug_def spec_slug_char_def slug_chars_def)
  have c: "36 ^ 5 \<le> date_now env_ok" by (simp add: env_simps)
  have f: "slice_last 6 (toString36 (date_now env_ok)) = ''yw3v28''"
    by (simp add: slice_last_def toString36_def to_base36.simps digit36_def env_simps)
  have p: "prepare env_ok (JStr ''My Task'') (field req_demo ''brief'') (field req_demo ''attachments'')
       = (Inr (mock_files ''todo app'', mock_readme ''todo app'',
               ''my-task-yw3v28''),
          [TmpDirSync 0, EnsureDir ''/tmp/job''])"
    using demo_prepare [of env_ok] f
    by (simp add: env_simps req_simps or_else_def derive_repoName_def)
  note r = repo_name_derivation [OF n, of env_ok]
  have s: "shortName (JStr ''My Task'') = Inr ''my-task''"
    using r [THEN conjunct1] by (simp add: sl)
  have l: "length (slice_last 6 (toString36 (date_now env_ok))) = 6"
    using r [THEN conjunct2, THEN conjunct2, THEN conjunct2, THEN conjunct2, THEN conjunct1,
        rule_format, OF c, THEN conjunct1] .
  show ?thesis
    by (intro conjI n s p c f l)
qed

end
